theory Spec2Isabelle
  imports Main
begin

section \<open>Strings\<close>

text \<open>
  A JavaScript string is modelled as the list of its characters. The alphabet is the 256
  characters of \<^typ>\<open>char\<close>, read as the code points 0 to 255; \<open>length\<close> counts
  characters, as the length check of the validation library does.
\<close>

definition is_space :: "char \<Rightarrow> bool" where
  \<comment> \<open>The class \<open>\s\<close> of a JavaScript regular expression, within the alphabet.\<close>
  "is_space c = (c \<in> set [CHR 0x09, CHR 0x0A, CHR 0x0B, CHR 0x0C, CHR 0x0D, CHR 0x20, CHR 0xA0])"

definition is_line_terminator :: "char \<Rightarrow> bool" where
  \<comment> \<open>The characters that \<open>.\<close> of a JavaScript regular expression does not match.\<close>
  "is_line_terminator c = (c = CHR 0x0A \<or> c = CHR 0x0D)"

definition is_digit :: "char \<Rightarrow> bool" where
  "is_digit c = (c \<in> set ''0123456789'')"

definition is_alpha :: "char \<Rightarrow> bool" where
  "is_alpha c = (c \<in> set ''abcdefghijklmnopqrstuvwxyzABCDEFGHIJKLMNOPQRSTUVWXYZ'')"

definition to_lower :: "char \<Rightarrow> char" where
  "to_lower c = (let n = (of_char c :: nat) in if 65 \<le> n \<and> n \<le> 90 then char_of (n + 32) else c)"

fun strip_prefix :: "string \<Rightarrow> string \<Rightarrow> string option" where
  "strip_prefix [] s = Some s"
| "strip_prefix (p # ps) [] = None"
| "strip_prefix (p # ps) (c # cs) = (if p = c then strip_prefix ps cs else None)"

section \<open>The validation library's string functions\<close>

text \<open>
  The route handlers of \<^verbatim>\<open>server.js\<close> call the packages \<^verbatim>\<open>express-validator\<close>
  (whose validators and sanitizers are those of \<^verbatim>\<open>validator\<close>), \<^verbatim>\<open>sanitize-html\<close>
  and \<^verbatim>\<open>express-rate-limit\<close>. None of them is part of the repository's sources; the
  functions below model the ones the handlers call, with the options the handlers pass.
\<close>

definition trim :: "string \<Rightarrow> string" where
  \<comment> \<open>Modelled from the spec: \<^verbatim>\<open>trim()\<close> of the validation library, which is not among
      the sources. White space is removed at both ends.\<close>
  "trim s = rev (dropWhile is_space (rev (dropWhile is_space s)))"

definition escape_char :: "char \<Rightarrow> string" where
  "escape_char c =
     (if c = CHR ''&'' then ''&amp;''
      else if c = CHR 0x22 then ''&quot;''
      else if c = CHR 0x27 then ''&#x27;''
      else if c = CHR ''<'' then ''&lt;''
      else if c = CHR ''>'' then ''&gt;''
      else if c = CHR ''/'' then ''&#x2F;''
      else if c = CHR 0x5C then ''&#x5C;''
      else if c = CHR 0x60 then ''&#96;''
      else [c])"

definition escape :: "string \<Rightarrow> string" where
  \<comment> \<open>Modelled from the spec: \<^verbatim>\<open>escape()\<close> of the validation library, which is not among
      the sources. The ampersand, the two quotation marks, the angle brackets, the
      slash, the backslash and the backquote are replaced by HTML character references.\<close>
  "escape s = concat (map escape_char s)"

definition isLength :: "nat \<Rightarrow> nat \<Rightarrow> string \<Rightarrow> bool" where
  \<comment> \<open>Modelled from the spec: \<^verbatim>\<open>isLength({ min, max })\<close> of the validation library, the
      "length 2-27" of the data model.\<close>
  "isLength mn mx s = (mn \<le> length s \<and> length s \<le> mx)"

definition numeric_body :: "string \<Rightarrow> bool" where
  "numeric_body r =
     (let a = takeWhile is_digit r; b = dropWhile is_digit r
      in case b of
           [] \<Rightarrow> a \<noteq> []
         | c # b' \<Rightarrow> c = CHR ''.'' \<and> b' \<noteq> [] \<and> list_all is_digit b')"

definition isNumeric :: "string \<Rightarrow> bool" where
  \<comment> \<open>Modelled from the spec: \<^verbatim>\<open>isNumeric()\<close> of the validation library, called without
      options, the "numeric" of the data model. The string matches
      \<^verbatim>\<open>^[+-]?([0-9]*[.])?[0-9]+$\<close>: a sign and a decimal point are admitted.\<close>
  "isNumeric s =
     (case s of
        [] \<Rightarrow> False
      | c # r \<Rightarrow> if c = CHR ''+'' \<or> c = CHR ''-'' then numeric_body r else numeric_body s)"

definition isIn :: "string list \<Rightarrow> string \<Rightarrow> bool" where
  \<comment> \<open>Modelled from the spec: \<^verbatim>\<open>isIn(values)\<close> of the validation library, the "one of"
      of the data model.\<close>
  "isIn values s = (s \<in> set values)"

definition isBoolean :: "string \<Rightarrow> bool" where
  \<comment> \<open>Modelled from the spec: \<^verbatim>\<open>isBoolean()\<close> of the validation library, called without
      options, the "boolean" of the data model.\<close>
  "isBoolean s = (s \<in> set [''true'', ''false'', ''1'', ''0''])"

section \<open>The sanitizer\<close>

text \<open>
  \<^verbatim>\<open>sanitizeInput\<close> is the repository's; it calls \<^verbatim>\<open>sanitizeHtml\<close> of the package
  \<^verbatim>\<open>sanitize-html\<close>. The first two subsections model that call.
\<close>

subsection \<open>Character references\<close>

definition digit_value :: "nat \<Rightarrow> char \<Rightarrow> nat option" where
  "digit_value base c =
     (let n = (of_char c :: nat) in
      if 48 \<le> n \<and> n \<le> 57 then Some (n - 48)
      else if base = 16 \<and> 97 \<le> n \<and> n \<le> 102 then Some (n - 87)
      else if base = 16 \<and> 65 \<le> n \<and> n \<le> 70 then Some (n - 55)
      else None)"

fun numeric_reference :: "nat \<Rightarrow> bool \<Rightarrow> nat \<Rightarrow> string \<Rightarrow> (nat \<times> string) option" where
  "numeric_reference base seen acc [] = None"
| "numeric_reference base seen acc (c # cs) =
     (if c = CHR '';'' then (if seen then Some (acc, cs) else None)
      else case digit_value base c of
             Some d \<Rightarrow> numeric_reference base True (acc * base + d) cs
           | None \<Rightarrow> None)"

definition named_references :: "(string \<times> char) list" where
  "named_references =
     [(''amp'', CHR ''&''), (''lt'', CHR ''<''), (''gt'', CHR ''>''),
      (''quot'', CHR 0x22), (''apos'', CHR 0x27), (''nbsp'', CHR 0xA0)]"

fun named_reference :: "(string \<times> char) list \<Rightarrow> string \<Rightarrow> (char \<times> string) option" where
  "named_reference [] cs = None"
| "named_reference ((n, ch) # t) cs =
     (case strip_prefix (n @ '';'') cs of
        Some r \<Rightarrow> Some (ch, r)
      | None \<Rightarrow> named_reference t cs)"

definition code_point :: "(nat \<times> string) option \<Rightarrow> (char \<times> string) option" where
  "code_point r =
     (case r of
        None \<Rightarrow> None
      | Some (n, rest) \<Rightarrow> if n < 256 then Some (char_of n, rest) else None)"

definition character_reference :: "string \<Rightarrow> (char \<times> string) option" where
  \<comment> \<open>Modelled from the spec: an "HTML entity reference", as the sanitizing library's
      parser decodes it. The argument is the text after an ampersand; the value is the
      character the reference stands for and the text after its semicolon. The
      predefined names and the numeric references of the alphabet are decoded.\<close>
  "character_reference cs =
     (case cs of
        [] \<Rightarrow> None
      | c # r \<Rightarrow>
          if c = CHR ''#'' then
            (case r of
               [] \<Rightarrow> None
             | x # r' \<Rightarrow>
                 if x = CHR ''x'' \<or> x = CHR ''X'' then code_point (numeric_reference 16 False 0 r')
                 else code_point (numeric_reference 10 False 0 r))
          else named_reference named_references cs)"

lemma strip_prefix_length: "strip_prefix p s = Some r \<Longrightarrow> length r \<le> length s"
  by (induction p s rule: strip_prefix.induct) (auto split: if_splits)

lemma numeric_reference_length:
  "numeric_reference base seen acc cs = Some (n, r) \<Longrightarrow> length r < length cs"
  by (induction base seen acc cs rule: numeric_reference.induct)
     (fastforce split: if_splits option.splits)+

lemma named_reference_length:
  "named_reference t cs = Some (ch, r) \<Longrightarrow> length r \<le> length cs"
  by (induction t cs rule: named_reference.induct)
     (auto split: option.splits dest: strip_prefix_length)

lemma character_reference_length:
  "character_reference cs = Some (ch, r) \<Longrightarrow> length r \<le> length cs"
  by (auto simp: character_reference_def code_point_def
      split: list.splits if_splits option.splits prod.splits
      dest!: numeric_reference_length named_reference_length)

function decodeEntities :: "string \<Rightarrow> string" where
  "decodeEntities [] = []"
| "decodeEntities (c # cs) =
     (if c = CHR ''&'' then
        (case character_reference cs of
           Some (ch, r) \<Rightarrow> ch # decodeEntities r
         | None \<Rightarrow> c # decodeEntities cs)
      else c # decodeEntities cs)"
  by pat_completeness auto
termination
  by (relation "measure length") (auto dest: character_reference_length)

definition escapeHtml_char :: "char \<Rightarrow> string" where
  "escapeHtml_char c =
     (if c = CHR ''&'' then ''&amp;''
      else if c = CHR ''<'' then ''&lt;''
      else if c = CHR ''>'' then ''&gt;''
      else [c])"

definition escapeHtml :: "string \<Rightarrow> string" where
  \<comment> \<open>Modelled from the spec: how the sanitizing library writes a text node.\<close>
  "escapeHtml s = concat (map escapeHtml_char s)"

subsection \<open>Removing the tags\<close>

datatype tokenizer_state =
    Text
  | BeforeTagName
  | BeforeClosingTagName
  | InTagName string
  | InTag string
  | InClosingTag
  | BeforeDeclaration
  | BeforeComment
  | InDeclaration
  | InComment nat

record parser =
  state :: tokenizer_state
  pending :: string
  result :: string
  skipTextDepth :: nat

definition nonTextTags :: "string list" where
  "nonTextTags = [''script'', ''style'', ''textarea'', ''option'']"

definition ontext :: "parser \<Rightarrow> parser" where
  "ontext p =
     (if skipTextDepth p = 0
      then p\<lparr>result := result p @ escapeHtml (decodeEntities (pending p)), pending := []\<rparr>
      else p\<lparr>pending := []\<rparr>)"

definition onopentag :: "string \<Rightarrow> parser \<Rightarrow> parser" where
  \<comment> \<open>No tag is allowed, so no tag is written; the text inside a tag of
      \<open>nonTextTags\<close> is skipped up to the end of that element.\<close>
  "onopentag name p =
     (if 0 < skipTextDepth p then p\<lparr>skipTextDepth := skipTextDepth p + 1\<rparr>
      else if name \<in> set nonTextTags then p\<lparr>skipTextDepth := 1\<rparr>
      else p)"

definition onclosetag :: "parser \<Rightarrow> parser" where
  "onclosetag p = p\<lparr>skipTextDepth := skipTextDepth p - 1\<rparr>"

definition text_char :: "parser \<Rightarrow> char \<Rightarrow> parser" where
  "text_char p c =
     (if c = CHR ''<'' then (ontext p)\<lparr>state := BeforeTagName\<rparr>
      else p\<lparr>state := Text, pending := pending p @ [c]\<rparr>)"

definition step :: "parser \<Rightarrow> char \<Rightarrow> parser" where
  "step p c =
     (case state p of
        Text \<Rightarrow> text_char p c
      | BeforeTagName \<Rightarrow>
          if c = CHR ''!'' then p\<lparr>state := BeforeDeclaration\<rparr>
          else if c = CHR ''?'' then p\<lparr>state := InDeclaration\<rparr>
          else if is_alpha c then p\<lparr>state := InTagName [to_lower c]\<rparr>
          else if c = CHR ''/'' then p\<lparr>state := BeforeClosingTagName\<rparr>
          else text_char (p\<lparr>pending := ''<''\<rparr>) c
      | BeforeClosingTagName \<Rightarrow>
          if c = CHR ''>'' then p\<lparr>state := Text, pending := ''</>''\<rparr>
          else if is_space c then p
          else if is_alpha c then p\<lparr>state := InClosingTag\<rparr>
          else p\<lparr>state := InDeclaration\<rparr>
      | InTagName n \<Rightarrow>
          if c = CHR ''>'' then (onopentag n p)\<lparr>state := Text\<rparr>
          else if c = CHR ''/'' \<or> is_space c then p\<lparr>state := InTag n\<rparr>
          else p\<lparr>state := InTagName (n @ [to_lower c])\<rparr>
      | InTag n \<Rightarrow>
          if c = CHR ''>'' then (onopentag n p)\<lparr>state := Text\<rparr> else p
      | InClosingTag \<Rightarrow>
          if c = CHR ''>'' then (onclosetag p)\<lparr>state := Text\<rparr> else p
      | BeforeDeclaration \<Rightarrow>
          if c = CHR ''-'' then p\<lparr>state := BeforeComment\<rparr>
          else if c = CHR ''>'' then p\<lparr>state := Text\<rparr>
          else p\<lparr>state := InDeclaration\<rparr>
      | BeforeComment \<Rightarrow>
          if c = CHR ''-'' then p\<lparr>state := InComment 0\<rparr>
          else if c = CHR ''>'' then p\<lparr>state := Text\<rparr>
          else p\<lparr>state := InDeclaration\<rparr>
      | InDeclaration \<Rightarrow>
          if c = CHR ''>'' then p\<lparr>state := Text\<rparr> else p
      | InComment n \<Rightarrow>
          if c = CHR ''-'' then p\<lparr>state := InComment (Suc n)\<rparr>
          else if c = CHR ''>'' \<and> 2 \<le> n then p\<lparr>state := Text\<rparr>
          else p\<lparr>state := InComment 0\<rparr>)"

definition finish :: "parser \<Rightarrow> parser" where
  \<comment> \<open>The end of the input: pending text is written, an unfinished tag is dropped.\<close>
  "finish p =
     (case state p of
        Text \<Rightarrow> ontext p
      | BeforeTagName \<Rightarrow> ontext (p\<lparr>pending := ''<''\<rparr>)
      | BeforeClosingTagName \<Rightarrow> ontext (p\<lparr>pending := ''</''\<rparr>)
      | _ \<Rightarrow> p)"

definition initial_parser :: parser where
  "initial_parser = \<lparr>state = Text, pending = [], result = [], skipTextDepth = 0\<rparr>"

definition sanitizeHtml :: "string \<Rightarrow> string" where
  \<comment> \<open>Modelled from the spec: \<^verbatim>\<open>sanitizeHtml(value, { allowedTags: [],
      allowedAttributes: {} })\<close> of the package \<^verbatim>\<open>sanitize-html\<close>, which is not among the
      sources. It "removes every HTML tag (allow-list is empty) and every attribute"; the
      text that is left is written with its character references decoded and
      \<open>&\<close>, \<open><\<close>, \<open>>\<close> written as references again, and the contents of
      \<^verbatim>\<open>script\<close>, \<^verbatim>\<open>style\<close>, \<^verbatim>\<open>textarea\<close> and \<^verbatim>\<open>option\<close> elements are dropped with
      their tags. The end tags an HTML parser implies are not modelled.\<close>
  "sanitizeHtml value = result (finish (foldl step initial_parser value))"

subsection \<open>The repository's wrapper\<close>

fun entity_end :: "string \<Rightarrow> string option" where
  \<comment> \<open>What \<^verbatim>\<open>.*?;\<close> matches lazily: up to the first semicolon, if no line terminator
      comes before it. The value is the text after that semicolon.\<close>
  "entity_end [] = None"
| "entity_end (c # cs) =
     (if c = CHR '';'' then Some cs
      else if is_line_terminator c then None
      else entity_end cs)"

lemma entity_end_length: "entity_end cs = Some r \<Longrightarrow> length r < length cs"
  by (induction cs) (auto split: if_splits)

function replace_entities :: "string \<Rightarrow> string" where
  \<comment> \<open>\<^verbatim>\<open>.replace(/&.*?;/g, "")\<close>\<close>
  "replace_entities [] = []"
| "replace_entities (c # cs) =
     (if c = CHR ''&'' then
        (case entity_end cs of
           Some r \<Rightarrow> replace_entities r
         | None \<Rightarrow> c # replace_entities cs)
      else c # replace_entities cs)"
  by pat_completeness auto
termination
  by (relation "measure length") (auto dest: entity_end_length)

definition sanitizeInput :: "string \<Rightarrow> string" where
  \<comment> \<open>\<^verbatim>\<open>sanitizeInput\<close> of \<^verbatim>\<open>server.js\<close>\<close>
  "sanitizeInput value = replace_entities (sanitizeHtml value)"

definition sanitizeInput_part_000 :: "string \<Rightarrow> string" where
  \<comment> \<open>\<^verbatim>\<open>sanitizeInput\<close> of the second variant of the server (\<^verbatim>\<open>unnamed/part_000\<close>)\<close>
  "sanitizeInput_part_000 value = sanitizeHtml value"

section \<open>The request body and the validation chains\<close>

text \<open>
  The ten fields of a reservation, as \<^verbatim>\<open>req.body\<close> holds them: a field is absent
  (\<open>None\<close>, JavaScript's \<^verbatim>\<open>undefined\<close>) or a string. The validation library reads
  every value through its string form, and the model covers the bodies whose fields
  are strings.
\<close>

record reserva =
  apellidos :: "string option"
  nombres :: "string option"
  email :: "string option"
  telefono :: "string option"
  tipo_evento :: "string option"
  plan_evento :: "string option"
  cantidad_anticipo :: "string option"
  servicio_adicional :: "string option"
  horas_renta :: "string option"
  compromiso_pago :: "string option"

datatype field =
    Apellidos | Nombres | Email | Telefono | Tipo_evento | Plan_evento
  | Cantidad_anticipo | Servicio_adicional | Horas_renta | Compromiso_pago

fun get_field :: "field \<Rightarrow> reserva \<Rightarrow> string option" where
  "get_field Apellidos b = apellidos b"
| "get_field Nombres b = nombres b"
| "get_field Email b = email b"
| "get_field Telefono b = telefono b"
| "get_field Tipo_evento b = tipo_evento b"
| "get_field Plan_evento b = plan_evento b"
| "get_field Cantidad_anticipo b = cantidad_anticipo b"
| "get_field Servicio_adicional b = servicio_adicional b"
| "get_field Horas_renta b = horas_renta b"
| "get_field Compromiso_pago b = compromiso_pago b"

fun set_field :: "field \<Rightarrow> string option \<Rightarrow> reserva \<Rightarrow> reserva" where
  "set_field Apellidos v b = b\<lparr>apellidos := v\<rparr>"
| "set_field Nombres v b = b\<lparr>nombres := v\<rparr>"
| "set_field Email v b = b\<lparr>email := v\<rparr>"
| "set_field Telefono v b = b\<lparr>telefono := v\<rparr>"
| "set_field Tipo_evento v b = b\<lparr>tipo_evento := v\<rparr>"
| "set_field Plan_evento v b = b\<lparr>plan_evento := v\<rparr>"
| "set_field Cantidad_anticipo v b = b\<lparr>cantidad_anticipo := v\<rparr>"
| "set_field Servicio_adicional v b = b\<lparr>servicio_adicional := v\<rparr>"
| "set_field Horas_renta v b = b\<lparr>horas_renta := v\<rparr>"
| "set_field Compromiso_pago v b = b\<lparr>compromiso_pago := v\<rparr>"

definition toString :: "string option \<Rightarrow> string" where
  \<comment> \<open>Modelled from the spec: the string the library's validators and sanitizers read.
      An absent value reads as the empty string.\<close>
  "toString v = (case v of None \<Rightarrow> [] | Some s \<Rightarrow> s)"

definition or_empty :: "string option \<Rightarrow> string" where
  \<comment> \<open>\<^verbatim>\<open>v || ""\<close>: an absent value and the empty string are falsy.\<close>
  "or_empty v = (case v of None \<Rightarrow> [] | Some s \<Rightarrow> if s = [] then [] else s)"

datatype message =
    Invalid_value
  | Los_apellidos_deben_tener_entre_2_y_27_caracteres
  | Los_apellidos_deben_tener_al_menos_2_caracteres
  | El_nombre_debe_tener_entre_2_y_20_caracteres
  | El_nombre_debe_tener_al_menos_2_caracteres
  | Ingresa_un_email_valido
  | Numero_de_telefono_debe_ser_de_10_digitos
  | Tipo_de_evento_debe_ser_valido
  | Plan_de_evento_no_valido
  | Cantidad_de_anticipo_debe_ser_un_numero
  | Horas_de_renta_no_validas
  | Compromiso_de_pago_debe_ser_verdadero_o_falso

text \<open>
  A validation chain \<^verbatim>\<open>body('f').trim().isLength(...)...\<close> is the list of its calls, in
  the order of the source.
\<close>

datatype item =
    Trim
  | Escape
  | Optional
  | IsLength nat nat
  | IsEmail
  | IsNumeric
  | IsIn "string list"
  | IsBoolean
  | WithMessage message

type_synonym chain = "field \<times> item list"

record validation_error =
  param :: field
  msg :: message

fun sanitizer_of :: "item \<Rightarrow> (string \<Rightarrow> string) option" where
  "sanitizer_of Trim = Some trim"
| "sanitizer_of Escape = Some escape"
| "sanitizer_of _ = None"

fun validator_of :: "(string \<Rightarrow> bool) \<Rightarrow> item \<Rightarrow> (string \<Rightarrow> bool) option" where
  "validator_of isEmail (IsLength mn mx) = Some (isLength mn mx)"
| "validator_of isEmail IsEmail = Some isEmail"
| "validator_of isEmail IsNumeric = Some isNumeric"
| "validator_of isEmail (IsIn values) = Some (isIn values)"
| "validator_of isEmail IsBoolean = Some isBoolean"
| "validator_of isEmail _ = None"

fun message_for :: "message \<Rightarrow> item list \<Rightarrow> message" where
  \<comment> \<open>Modelled from the spec: \<^verbatim>\<open>withMessage\<close> sets the message of the last validator
      before it; a validator without one reports \<open>Invalid_value\<close>.\<close>
  "message_for m [] = m"
| "message_for m (WithMessage m' # rest) = message_for m' rest"
| "message_for m (i # rest) =
     (if validator_of (\<lambda>_. True) i \<noteq> None then m else message_for m rest)"

fun run_items :: "(string \<Rightarrow> bool) \<Rightarrow> item list \<Rightarrow> string \<Rightarrow> string \<times> message list" where
  \<comment> \<open>Modelled from the spec: how the validation library runs a chain. The calls run in
      order: a sanitizer replaces the value, a validator that fails adds its message
      and the chain goes on.\<close>
  "run_items isEmail [] v = (v, [])"
| "run_items isEmail (i # rest) v =
     (case validator_of isEmail i of
        Some check \<Rightarrow>
          (let (v', ms) = run_items isEmail rest v
           in (v', if check v then ms else message_for Invalid_value rest # ms))
      | None \<Rightarrow>
          (case sanitizer_of i of
             Some f \<Rightarrow> run_items isEmail rest (f v)
           | None \<Rightarrow> run_items isEmail rest v))"

definition run_chain ::
  "(string \<Rightarrow> bool) \<Rightarrow> chain \<Rightarrow> reserva \<times> validation_error list \<Rightarrow>
   reserva \<times> validation_error list" where
  \<comment> \<open>Modelled from the spec: one chain, as the middleware the validation library makes
      of it. An optional chain is skipped when the field is absent; a sanitized value
      is written back to \<^verbatim>\<open>req.body\<close>.\<close>
  "run_chain isEmail ch acc =
     (let f = fst ch; items = snd ch; b = fst acc; errors = snd acc
      in if Optional \<in> set items \<and> get_field f b = None then (b, errors)
         else
           (let (v, ms) = run_items isEmail items (toString (get_field f b))
            in (if list_ex (\<lambda>i. sanitizer_of i \<noteq> None) items then set_field f (Some v) b else b,
                errors @ map (\<lambda>m. \<lparr>param = f, msg = m\<rparr>) ms)))"

definition validationResult ::
  "(string \<Rightarrow> bool) \<Rightarrow> chain list \<Rightarrow> reserva \<Rightarrow> reserva \<times> validation_error list" where
  \<comment> \<open>Modelled from the spec: the body after the chains have run, and
      \<^verbatim>\<open>validationResult(req).array()\<close>, "a list of field-level errors".\<close>
  "validationResult isEmail checks b = foldl (\<lambda>acc ch. run_chain isEmail ch acc) (b, []) checks"

definition validators :: "chain list" where
  \<comment> \<open>\<^verbatim>\<open>server.js\<close>, lines 65 to 74\<close>
  "validators =
     [(Apellidos, [Trim, IsLength 2 27, Escape,
                   WithMessage Los_apellidos_deben_tener_entre_2_y_27_caracteres]),
      (Nombres, [Trim, IsLength 2 20, Escape,
                 WithMessage El_nombre_debe_tener_entre_2_y_20_caracteres]),
      (Email, [Trim, IsEmail, WithMessage Ingresa_un_email_valido]),
      (Telefono, [Trim, IsNumeric, IsLength 10 10,
                  WithMessage Numero_de_telefono_debe_ser_de_10_digitos]),
      (Tipo_evento, [Trim, IsLength 3 10, Escape, WithMessage Tipo_de_evento_debe_ser_valido]),
      (Plan_evento, [Trim, IsIn [''Clasico'', ''Premium'', ''Golden''],
                     WithMessage Plan_de_evento_no_valido]),
      (Cantidad_anticipo, [IsNumeric, WithMessage Cantidad_de_anticipo_debe_ser_un_numero]),
      (Servicio_adicional, [Trim, Optional, Escape]),
      (Horas_renta, [IsIn [''3'', ''4'', ''5'', ''6'', ''7''],
                     WithMessage Horas_de_renta_no_validas]),
      (Compromiso_pago, [IsBoolean, WithMessage Compromiso_de_pago_debe_ser_verdadero_o_falso])]"

definition validators_part_000 :: "chain list" where
  \<comment> \<open>\<^verbatim>\<open>unnamed/part_000\<close>, lines 64 to 73\<close>
  "validators_part_000 =
     [(Apellidos, [Trim, Escape, IsLength 2 27,
                   WithMessage Los_apellidos_deben_tener_al_menos_2_caracteres]),
      (Nombres, [Trim, Escape, IsLength 2 20,
                 WithMessage El_nombre_debe_tener_al_menos_2_caracteres]),
      (Email, [Trim, IsEmail, WithMessage Ingresa_un_email_valido]),
      (Telefono, [Trim, IsNumeric, IsLength 10 10,
                  WithMessage Numero_de_telefono_debe_ser_de_10_digitos]),
      (Tipo_evento, [Trim, Escape, IsLength 3 10, WithMessage Tipo_de_evento_debe_ser_valido]),
      (Plan_evento, [Trim, Escape, IsIn [''Clasico'', ''Premium'', ''Golden''],
                     WithMessage Plan_de_evento_no_valido]),
      (Cantidad_anticipo, [IsNumeric, WithMessage Cantidad_de_anticipo_debe_ser_un_numero]),
      (Servicio_adicional, [Trim, Escape, Optional]),
      (Horas_renta, [IsIn [''3'', ''4'', ''5'', ''6'', ''7''],
                     WithMessage Horas_de_renta_no_validas]),
      (Compromiso_pago, [IsBoolean, WithMessage Compromiso_de_pago_debe_ser_verdadero_o_falso])]"

section \<open>The table\<close>

record row =
  row_id :: nat
  row_data :: reserva

record database =
  reservas :: "row list"
  auto_increment :: nat

text \<open>
  The storage connector (\<^verbatim>\<open>./database\<close>) is not among the sources. The specification
  describes it as "executing parameterized queries and returning rows or an
  error/affected-row count". The table is the list of its rows in the order of
  insertion; \<open>id\<close> is "generated by storage, immutable". An identifier is the number the
  storage compares with \<open>id\<close>. The affected rows of a statement are the rows its
  \<^verbatim>\<open>WHERE\<close> clause matches. A statement that fails changes nothing.
\<close>

definition select_limit_10 :: "database \<Rightarrow> row list" where
  \<comment> \<open>Modelled from the spec: the storage connector's rows for
      \<^verbatim>\<open>SELECT * FROM reservas LIMIT 10\<close>.\<close>
  "select_limit_10 db = take 10 (reservas db)"

definition select_where_id :: "nat \<Rightarrow> database \<Rightarrow> row list" where
  \<comment> \<open>Modelled from the spec: the storage connector's rows for
      \<^verbatim>\<open>SELECT * FROM reservas WHERE id = ?\<close>.\<close>
  "select_where_id i db = filter (\<lambda>r. row_id r = i) (reservas db)"

definition insert_into :: "reserva \<Rightarrow> database \<Rightarrow> database" where
  \<comment> \<open>Modelled from the spec: the table after the storage connector has run
      \<^verbatim>\<open>INSERT INTO reservas (...) VALUES (?, ..., ?)\<close>; the identifier is generated.\<close>
  "insert_into d db =
     db\<lparr>reservas := reservas db @ [\<lparr>row_id = auto_increment db, row_data = d\<rparr>],
        auto_increment := Suc (auto_increment db)\<rparr>"

definition affectedRows :: "nat \<Rightarrow> database \<Rightarrow> nat" where
  \<comment> \<open>Modelled from the spec: the storage connector's "affected-row count" for a
      statement with \<^verbatim>\<open>WHERE id = ?\<close>.\<close>
  "affectedRows i db = length (filter (\<lambda>r. row_id r = i) (reservas db))"

definition delete_where_id :: "nat \<Rightarrow> database \<Rightarrow> database" where
  \<comment> \<open>Modelled from the spec: the table after the storage connector has run
      \<^verbatim>\<open>DELETE FROM reservas WHERE id = ?\<close>.\<close>
  "delete_where_id i db = db\<lparr>reservas := filter (\<lambda>r. row_id r \<noteq> i) (reservas db)\<rparr>"

definition update_where_id :: "nat \<Rightarrow> reserva \<Rightarrow> database \<Rightarrow> database" where
  \<comment> \<open>Modelled from the spec: the table after the storage connector has run
      \<^verbatim>\<open>UPDATE reservas SET apellidos = ?, ..., compromiso_pago = ? WHERE id = ?\<close>.\<close>
  "update_where_id i d db =
     db\<lparr>reservas := map (\<lambda>r. if row_id r = i then r\<lparr>row_data := d\<rparr> else r) (reservas db)\<rparr>"

definition primary_key :: "database \<Rightarrow> bool" where
  \<comment> \<open>The identifiers are generated: no two rows share one, and none is ahead of the
      counter.\<close>
  "primary_key db =
     (distinct (map row_id (reservas db)) \<and> list_all (\<lambda>r. row_id r < auto_increment db) (reservas db))"

section \<open>The route handlers\<close>

datatype mensaje =
    Error_al_obtener_las_reservas
  | Error_al_obtener_la_reserva
  | Reserva_no_encontrada
  | Error_en_el_servidor
  | Reserva_guardada_con_exito
  | Error_al_eliminar_la_reserva
  | Reserva_eliminada_con_exito
  | Error_al_actualizar_la_reserva
  | Reserva_actualizada_con_exito

datatype json =
    Mensaje mensaje
  | Results "row list"
  | Result row
  | Errors "validation_error list"

record response =
  status :: nat
  json :: json

text \<open>
  A handler takes the request, the table and whether the storage fails on its statement
  (\<^verbatim>\<open>err\<close> of the callback), and returns the response and the table.
\<close>

definition get_reservas :: "bool \<Rightarrow> database \<Rightarrow> response \<times> database" where
  \<comment> \<open>\<^verbatim>\<open>GET /reservas\<close>\<close>
  "get_reservas err db =
     (if err then (\<lparr>status = 500, json = Mensaje Error_al_obtener_las_reservas\<rparr>, db)
      else (\<lparr>status = 200, json = Results (select_limit_10 db)\<rparr>, db))"

definition get_reserva :: "bool \<Rightarrow> nat \<Rightarrow> database \<Rightarrow> response \<times> database" where
  \<comment> \<open>\<^verbatim>\<open>GET /reserva/:id\<close>\<close>
  "get_reserva err i db =
     (if err then (\<lparr>status = 500, json = Mensaje Error_al_obtener_la_reserva\<rparr>, db)
      else case select_where_id i db of
             r # _ \<Rightarrow> (\<lparr>status = 200, json = Result r\<rparr>, db)
           | [] \<Rightarrow> (\<lparr>status = 404, json = Mensaje Reserva_no_encontrada\<rparr>, db))"

definition guardar_reserva ::
  "chain list \<Rightarrow> (string \<Rightarrow> string) \<Rightarrow> (string \<Rightarrow> bool) \<Rightarrow> bool \<Rightarrow> reserva \<Rightarrow> database \<Rightarrow>
   response \<times> database" where
  \<comment> \<open>The handler of \<^verbatim>\<open>POST /guardar-reserva\<close>, which the two variants share but for
      their chains and their \<^verbatim>\<open>sanitizeInput\<close>.\<close>
  "guardar_reserva checks sanitize isEmail err req_body db =
     (let (body, errors) = validationResult isEmail checks req_body
      in if errors \<noteq> [] then (\<lparr>status = 400, json = Errors errors\<rparr>, db)
         else
           (let sanitizedData =
                  \<lparr>apellidos = Some (sanitize (toString (apellidos body))),
                   nombres = Some (sanitize (toString (nombres body))),
                   email = email body,
                   telefono = telefono body,
                   tipo_evento = Some (sanitize (toString (tipo_evento body))),
                   plan_evento = plan_evento body,
                   cantidad_anticipo = cantidad_anticipo body,
                   servicio_adicional = Some (sanitize (or_empty (servicio_adicional body))),
                   horas_renta = horas_renta body,
                   compromiso_pago = compromiso_pago body\<rparr>
            in if err then (\<lparr>status = 500, json = Mensaje Error_en_el_servidor\<rparr>, db)
               else (\<lparr>status = 200, json = Mensaje Reserva_guardada_con_exito\<rparr>,
                     insert_into sanitizedData db)))"

definition post_guardar_reserva ::
  "(string \<Rightarrow> bool) \<Rightarrow> bool \<Rightarrow> reserva \<Rightarrow> database \<Rightarrow> response \<times> database" where
  \<comment> \<open>\<^verbatim>\<open>POST /guardar-reserva\<close> of \<^verbatim>\<open>server.js\<close>\<close>
  "post_guardar_reserva = guardar_reserva validators sanitizeInput"

definition post_guardar_reserva_part_000 ::
  "(string \<Rightarrow> bool) \<Rightarrow> bool \<Rightarrow> reserva \<Rightarrow> database \<Rightarrow> response \<times> database" where
  \<comment> \<open>\<^verbatim>\<open>POST /guardar-reserva\<close> of \<^verbatim>\<open>unnamed/part_000\<close>\<close>
  "post_guardar_reserva_part_000 = guardar_reserva validators_part_000 sanitizeInput_part_000"

definition delete_eliminar_reserva :: "bool \<Rightarrow> nat \<Rightarrow> database \<Rightarrow> response \<times> database" where
  \<comment> \<open>\<^verbatim>\<open>DELETE /eliminar-reserva/:id\<close>\<close>
  "delete_eliminar_reserva err i db =
     (if err then (\<lparr>status = 500, json = Mensaje Error_al_eliminar_la_reserva\<rparr>, db)
      else if 0 < affectedRows i db
           then (\<lparr>status = 200, json = Mensaje Reserva_eliminada_con_exito\<rparr>, delete_where_id i db)
           else (\<lparr>status = 404, json = Mensaje Reserva_no_encontrada\<rparr>, delete_where_id i db))"

definition put_actualizar_reserva ::
  "bool \<Rightarrow> nat \<Rightarrow> reserva \<Rightarrow> database \<Rightarrow> response \<times> database" where
  \<comment> \<open>\<^verbatim>\<open>PUT /actualizar-reserva/:id\<close> (\<^verbatim>\<open>unnamed/part_000\<close> only)\<close>
  "put_actualizar_reserva err i req_body db =
     (if err then (\<lparr>status = 500, json = Mensaje Error_al_actualizar_la_reserva\<rparr>, db)
      else if 0 < affectedRows i db
           then (\<lparr>status = 200, json = Mensaje Reserva_actualizada_con_exito\<rparr>,
                 update_where_id i req_body db)
           else (\<lparr>status = 404, json = Mensaje Reserva_no_encontrada\<rparr>,
                 update_where_id i req_body db))"

definition records :: "response \<Rightarrow> row list" where
  \<comment> \<open>The records a response carries.\<close>
  "records r = (case json r of Results rs \<Rightarrow> rs | Result x \<Rightarrow> [x] | _ \<Rightarrow> [])"

section \<open>The rate limiter\<close>

record options =
  windowMs :: nat
  max_hits :: nat
  message :: string

definition limiter :: options where
  \<comment> \<open>The options \<^verbatim>\<open>server.js\<close> passes to \<^verbatim>\<open>rateLimit\<close>: \<^verbatim>\<open>windowMs\<close>, \<^verbatim>\<open>max\<close> and
      \<^verbatim>\<open>message\<close> (its first character is the inverted exclamation mark).\<close>
  "limiter = \<lparr>windowMs = 2 * 60 * 1000, max_hits = 125,
              message = CHR 0xA1 # ''Ja! No puedes tirar mi server.''\<rparr>"

text \<open>
  The store keeps, for a client, the time its window ends and its requests in that
  window. Times are in milliseconds.
\<close>

type_synonym 'k store = "'k \<Rightarrow> (nat \<times> nat) option"

definition live :: "nat \<Rightarrow> 'k \<Rightarrow> 'k store \<Rightarrow> bool" where
  \<comment> \<open>The client has a window that has not ended.\<close>
  "live now key st = (case st key of Some (resetTime, hits) \<Rightarrow> now < resetTime | None \<Rightarrow> False)"

definition totalHits :: "nat \<Rightarrow> 'k \<Rightarrow> 'k store \<Rightarrow> nat" where
  \<comment> \<open>The client's counter at a time: the requests of its window, if the window has not
      ended.\<close>
  "totalHits now key st =
     (case st key of
        Some (resetTime, hits) \<Rightarrow> if now < resetTime then hits else 0
      | None \<Rightarrow> 0)"

definition increment :: "options \<Rightarrow> nat \<Rightarrow> 'k \<Rightarrow> 'k store \<Rightarrow> 'k store" where
  \<comment> \<open>A request is counted in the client's window; when the client has none, or it has
      ended, the request opens a new window, which lasts \<open>windowMs\<close>.\<close>
  "increment opts now key st =
     (case st key of
        Some (resetTime, hits) \<Rightarrow>
          if now < resetTime then st(key \<mapsto> (resetTime, Suc hits))
          else st(key \<mapsto> (now + windowMs opts, 1))
      | None \<Rightarrow> st(key \<mapsto> (now + windowMs opts, 1)))"

datatype reply = Next | Send nat string

definition rateLimit :: "options \<Rightarrow> nat \<Rightarrow> 'k \<Rightarrow> 'k store \<Rightarrow> reply \<times> 'k store" where
  \<comment> \<open>Modelled from the spec: the middleware of the package \<^verbatim>\<open>express-rate-limit\<close>, which
      is not among the sources. "Fixed time window (2 minutes), maximum 125 requests per
      client identity within the window; requests beyond the limit receive a fixed
      rejection message and an appropriate throttling status. Window resets on expiry;
      no sliding window". A request is counted, then answered: \<open>Next\<close> hands it to the
      route, \<open>Send\<close> answers it with status 429 and the message.\<close>
  "rateLimit opts now key st =
     (let st' = increment opts now key st
      in (if max_hits opts < totalHits now key st' then Send 429 (message opts) else Next, st'))"

fun serve :: "options \<Rightarrow> (nat \<times> 'k) list \<Rightarrow> 'k store \<Rightarrow> ('k \<times> reply) list" where
  \<comment> \<open>The requests of all clients in their order of arrival, each with its time, and the
      limiter's reply to each.\<close>
  "serve opts [] st = []"
| "serve opts ((now, key) # rest) st =
     (let (r, st') = rateLimit opts now key st in (key, r) # serve opts rest st')"

definition replies_to :: "'k \<Rightarrow> ('k \<times> reply) list \<Rightarrow> reply list" where
  "replies_to key rs = map snd (filter (\<lambda>x. fst x = key) rs)"

section \<open>Auxiliary notions\<close>

definition plain :: "char \<Rightarrow> bool" where
  "plain c = (c \<noteq> CHR ''&'' \<and> c \<noteq> CHR ''<'' \<and> c \<noteq> CHR ''>'')"

definition escaped :: "string \<Rightarrow> bool" where
  "escaped s = (\<exists>t. s = escapeHtml t)"

definition failure :: "field \<Rightarrow> message \<Rightarrow> bool \<Rightarrow> validation_error list" where
  \<comment> \<open>The error descriptor of a check that does not hold.\<close>
  "failure f m ok = (if ok then [] else [\<lparr>param = f, msg = m\<rparr>])"

definition passes :: "(string \<Rightarrow> bool) \<Rightarrow> reserva \<Rightarrow> bool" where
  \<comment> \<open>The field rules as the chains of \<^verbatim>\<open>server.js\<close> check them: on the trimmed values,
      an absent field reading as the empty string.\<close>
  "passes isEmail p =
     (isLength 2 27 (trim (toString (apellidos p)))
      \<and> isLength 2 20 (trim (toString (nombres p)))
      \<and> isEmail (trim (toString (email p)))
      \<and> isNumeric (trim (toString (telefono p)))
      \<and> isLength 10 10 (trim (toString (telefono p)))
      \<and> isLength 3 10 (trim (toString (tipo_evento p)))
      \<and> isIn [''Clasico'', ''Premium'', ''Golden''] (trim (toString (plan_evento p)))
      \<and> isNumeric (toString (cantidad_anticipo p))
      \<and> isIn [''3'', ''4'', ''5'', ''6'', ''7''] (toString (horas_renta p))
      \<and> isBoolean (toString (compromiso_pago p)))"

definition passes_part_000 :: "(string \<Rightarrow> bool) \<Rightarrow> reserva \<Rightarrow> bool" where
  \<comment> \<open>The field rules as the chains of \<^verbatim>\<open>unnamed/part_000\<close> check them: the lengths and
      the plan are checked on the trimmed and escaped values.\<close>
  "passes_part_000 isEmail p =
     (isLength 2 27 (escape (trim (toString (apellidos p))))
      \<and> isLength 2 20 (escape (trim (toString (nombres p))))
      \<and> isEmail (trim (toString (email p)))
      \<and> isNumeric (trim (toString (telefono p)))
      \<and> isLength 10 10 (trim (toString (telefono p)))
      \<and> isLength 3 10 (escape (trim (toString (tipo_evento p))))
      \<and> isIn [''Clasico'', ''Premium'', ''Golden''] (escape (trim (toString (plan_evento p))))
      \<and> isNumeric (toString (cantidad_anticipo p))
      \<and> isIn [''3'', ''4'', ''5'', ''6'', ''7''] (toString (horas_renta p))
      \<and> isBoolean (toString (compromiso_pago p)))"

definition field_rules :: "(string \<Rightarrow> bool) \<Rightarrow> reserva \<Rightarrow> bool" where
  \<comment> \<open>The field rules in the words of the specification's data model, read on the body
      as it is submitted: "apellidos length 2-27, nombres length 2-20, valid email,
      telefono exactly 10 digits, tipo_evento length 3-10, plan_evento in Clasico,
      Premium, Golden, cantidad_anticipo numeric, horas_renta in 3 to 7, compromiso_pago
      boolean".\<close>
  "field_rules valid_email p =
     ((case apellidos p of None \<Rightarrow> False | Some v \<Rightarrow> 2 \<le> length v \<and> length v \<le> 27)
      \<and> (case nombres p of None \<Rightarrow> False | Some v \<Rightarrow> 2 \<le> length v \<and> length v \<le> 20)
      \<and> (case email p of None \<Rightarrow> False | Some v \<Rightarrow> valid_email v)
      \<and> (case telefono p of None \<Rightarrow> False | Some v \<Rightarrow> length v = 10 \<and> list_all is_digit v)
      \<and> (case tipo_evento p of None \<Rightarrow> False | Some v \<Rightarrow> 3 \<le> length v \<and> length v \<le> 10)
      \<and> (case plan_evento p of None \<Rightarrow> False
          | Some v \<Rightarrow> v \<in> set [''Clasico'', ''Premium'', ''Golden''])
      \<and> (case cantidad_anticipo p of None \<Rightarrow> False | Some v \<Rightarrow> isNumeric v)
      \<and> (case horas_renta p of None \<Rightarrow> False
          | Some v \<Rightarrow> v \<in> set [''3'', ''4'', ''5'', ''6'', ''7''])
      \<and> (case compromiso_pago p of None \<Rightarrow> False | Some v \<Rightarrow> v \<in> set [''true'', ''false'']))"

text \<open>A reservation and two tables, for the examples.\<close>

definition ejemplo :: reserva where
  "ejemplo =
     \<lparr>apellidos = Some ''Perez Luna'',
      nombres = Some ''Ana'',
      email = Some ''ana@example.com'',
      telefono = Some ''5512345678'',
      tipo_evento = Some ''Boda'',
      plan_evento = Some ''Premium'',
      cantidad_anticipo = Some ''1500.50'',
      servicio_adicional = None,
      horas_renta = Some ''5'',
      compromiso_pago = Some ''true''\<rparr>"

definition tabla_vacia :: database where
  "tabla_vacia = \<lparr>reservas = [], auto_increment = 1\<rparr>"

definition tabla_ejemplo :: database where
  "tabla_ejemplo =
     \<lparr>reservas = [\<lparr>row_id = 1, row_data = ejemplo\<rparr>,
                  \<lparr>row_id = 2, row_data = ejemplo\<lparr>nombres := Some ''Luis''\<rparr>\<rparr>],
      auto_increment = 3\<rparr>"

definition sin_validar :: reserva where
  \<comment> \<open>A body that breaks the field rules and carries markup.\<close>
  "sin_validar =
     \<lparr>apellidos = Some ''<b>x</b>'',
      nombres = Some [],
      email = Some ''no es un email'',
      telefono = Some ''abc'',
      tipo_evento = None,
      plan_evento = Some ''Otro'',
      cantidad_anticipo = Some ''mucho'',
      servicio_adicional = Some ''&lt;'',
      horas_renta = Some ''99'',
      compromiso_pago = None\<rparr>"

definition nth_reply :: "options \<Rightarrow> nat \<Rightarrow> reply" where
  \<comment> \<open>The reply to the request that brings a client's counter to \<open>n\<close>.\<close>
  "nth_reply opts n = (if max_hits opts < n then Send 429 (message opts) else Next)"

definition rafaga :: "(nat \<times> string) list" where
  \<comment> \<open>A burst: one request of a second client, then 125 requests of the first one.\<close>
  "rafaga = (7, ''10.0.0.2'') # replicate 125 (60000, ''10.0.0.1'')"

section \<open>Properties of the sanitizer\<close>

lemma escapeHtml_append: "escapeHtml (a @ b) = escapeHtml a @ escapeHtml b"
  by (simp add: escapeHtml_def)

lemma escapeHtml_Cons: "escapeHtml (c # s) = escapeHtml_char c @ escapeHtml s"
  by (simp add: escapeHtml_def)

lemma escapeHtml_Nil: "escapeHtml [] = []"
  by (simp add: escapeHtml_def)

text \<open>The replacement removes every reference that \<open>escapeHtml\<close> wrote.\<close>

lemma replace_entities_escapeHtml: "replace_entities (escapeHtml t) = filter plain t"
  by (induction t) (simp_all add: escapeHtml_Cons escapeHtml_Nil escapeHtml_char_def plain_def
      is_line_terminator_def)

lemma replace_entities_plain: "list_all plain u \<Longrightarrow> replace_entities u = u"
  by (induction u) (simp_all add: plain_def)

lemma decodeEntities_no_amp: "CHR ''&'' \<notin> set u \<Longrightarrow> decodeEntities u = u"
  by (induction u) auto

lemma escapeHtml_plain: "list_all plain u \<Longrightarrow> escapeHtml u = u"
  by (induction u) (simp_all add: escapeHtml_Cons escapeHtml_Nil escapeHtml_char_def plain_def)

lemma decodeEntities_escapeHtml: "decodeEntities (escapeHtml t) = t"
  by (induction t) (simp_all add: escapeHtml_Cons escapeHtml_Nil escapeHtml_char_def
      character_reference_def named_references_def)

lemma escapeHtml_no_lt: "CHR ''<'' \<notin> set (escapeHtml t)"
  by (induction t) (simp_all add: escapeHtml_Cons escapeHtml_Nil escapeHtml_char_def)

text \<open>Without a \<open><\<close> the tokenizer never leaves the text state.\<close>

lemma foldl_step_text:
  "state p = Text \<Longrightarrow> CHR ''<'' \<notin> set s \<Longrightarrow>
   foldl step p s = p\<lparr>pending := pending p @ s\<rparr>"
  by (induction s arbitrary: p) (auto simp: step_def text_char_def)

lemma sanitizeHtml_no_lt:
  "CHR ''<'' \<notin> set s \<Longrightarrow> sanitizeHtml s = escapeHtml (decodeEntities s)"
  by (simp add: sanitizeHtml_def foldl_step_text initial_parser_def finish_def ontext_def)

text \<open>Whatever the tags are, the output is text written by \<open>escapeHtml\<close>.\<close>

lemma escaped_append: "escaped a \<Longrightarrow> escaped (a @ escapeHtml b)"
  unfolding escaped_def by (metis escapeHtml_append)

lemma escaped_ontext: "escaped (result p) \<Longrightarrow> escaped (result (ontext p))"
  by (simp add: ontext_def escaped_append)

lemma escaped_step: "escaped (result p) \<Longrightarrow> escaped (result (step p c))"
  by (cases "state p")
     (simp_all add: step_def text_char_def onopentag_def onclosetag_def escaped_ontext)

lemma escaped_foldl: "escaped (result p) \<Longrightarrow> escaped (result (foldl step p s))"
  by (induction s arbitrary: p) (simp_all add: escaped_step)

lemma escaped_finish: "escaped (result p) \<Longrightarrow> escaped (result (finish p))"
  by (cases "state p") (simp_all add: finish_def escaped_ontext)

lemma escaped_sanitizeHtml: "escaped (sanitizeHtml s)"
proof -
  have "escaped (result initial_parser)"
    by (simp add: initial_parser_def escaped_def exI [of _ "[]"] escapeHtml_Nil)
  then show ?thesis
    by (simp add: sanitizeHtml_def escaped_foldl escaped_finish)
qed

lemma sanitizeHtml_escapeHtml: "sanitizeHtml (escapeHtml t) = escapeHtml t"
  by (simp add: sanitizeHtml_no_lt escapeHtml_no_lt decodeEntities_escapeHtml)

lemma sanitizeHtml_idem: "sanitizeHtml (sanitizeHtml s) = sanitizeHtml s"
  using escaped_sanitizeHtml [of s] by (auto simp: escaped_def sanitizeHtml_escapeHtml)

lemma plain_filter: "list_all plain (filter plain t)"
  by (induction t) simp_all

lemma sanitizeInput_plain:
  assumes u: "list_all plain u"
  shows "sanitizeInput u = u"
proof -
  from u have a: "CHR ''&'' \<notin> set u" and l: "CHR ''<'' \<notin> set u"
    by (auto simp: list_all_iff plain_def)
  show ?thesis
    by (simp add: sanitizeInput_def sanitizeHtml_no_lt [OF l] decodeEntities_no_amp [OF a]
        escapeHtml_plain [OF u] replace_entities_plain [OF u])
qed

lemma sanitizeInput_filter: "\<exists>t. sanitizeInput s = filter plain t"
proof -
  obtain t where t: "sanitizeHtml s = escapeHtml t"
    using escaped_sanitizeHtml [of s] by (auto simp: escaped_def)
  have "sanitizeInput s = filter plain t"
    by (simp add: sanitizeInput_def t replace_entities_escapeHtml)
  then show ?thesis ..
qed

lemma sanitizeInput_Nil: "sanitizeInput [] = []"
  by (simp add: sanitizeInput_plain)

lemma sanitizeInput_part_000_Nil: "sanitizeInput_part_000 [] = []"
  by (simp add: sanitizeInput_part_000_def sanitizeHtml_no_lt escapeHtml_Nil)

text \<open>
  Claim C4, as it stands: the sanitizer maps \<^verbatim>\<open><script>alert(1)</script>\<close> to the empty
  string and \<^verbatim>\<open>&lt;b&gt;\<close> to the empty string. The second half fails in both variants:
  the references are text, not tags, and the letter between them stays.
\<close>

theorem sanitizeInput_entities_not_empty:
  "\<not> (sanitizeInput ''<script>alert(1)</script>'' = [] \<and> sanitizeInput ''&lt;b&gt;'' = [])
   \<and> \<not> (sanitizeInput_part_000 ''<script>alert(1)</script>'' = []
        \<and> sanitizeInput_part_000 ''&lt;b&gt;'' = [])"
  by code_simp

text \<open>
  Claim C4, amended: the sanitizer maps \<^verbatim>\<open><script>alert(1)</script>\<close> to the empty string;
  it maps \<^verbatim>\<open>&lt;b&gt;\<close> to \<^verbatim>\<open>b\<close> in \<^verbatim>\<open>server.js\<close>, where the references are removed,
  and to itself in the variant without the replacement.
\<close>

theorem sanitizeInput_examples:
  "sanitizeInput ''<script>alert(1)</script>'' = []
   \<and> sanitizeInput ''&lt;b&gt;'' = ''b''
   \<and> sanitizeInput_part_000 ''<script>alert(1)</script>'' = []
   \<and> sanitizeInput_part_000 ''&lt;b&gt;'' = ''&lt;b&gt;''"
  by code_simp

text \<open>
  Claim C5: the sanitizer is idempotent, \<open>sanitizeInput (sanitizeInput s) = sanitizeInput s\<close>
  for every string \<open>s\<close>, in both variants.
\<close>

theorem sanitizeInput_idempotent:
  "sanitizeInput (sanitizeInput s) = sanitizeInput s
   \<and> sanitizeInput_part_000 (sanitizeInput_part_000 s) = sanitizeInput_part_000 s"
proof
  obtain t where "sanitizeInput s = filter plain t"
    using sanitizeInput_filter by blast
  then show "sanitizeInput (sanitizeInput s) = sanitizeInput s"
    by (simp add: sanitizeInput_plain plain_filter)
next
  show "sanitizeInput_part_000 (sanitizeInput_part_000 s) = sanitizeInput_part_000 s"
    by (simp add: sanitizeInput_part_000_def sanitizeHtml_idem)
qed

section \<open>Properties of the list operation\<close>

lemma get_reservas_ok:
  "get_reservas False db = (\<lparr>status = 200, json = Results (take 10 (reservas db))\<rparr>, db)"
  by (simp add: get_reservas_def select_limit_10_def)

text \<open>
  Claim C7: for every state of the table, the list operation returns at most 10 records,
  however many rows the table contains.
\<close>

theorem get_reservas_at_most_10: "length (records (fst (get_reservas err db))) \<le> 10"
  by (simp add: get_reservas_def records_def select_limit_10_def)

section \<open>Properties of the delete and update operations\<close>

lemma affectedRows_0_iff: "affectedRows i db = 0 \<longleftrightarrow> i \<notin> row_id ` set (reservas db)"
  by (auto simp: affectedRows_def filter_empty_conv)

lemma filter_other_id: "i \<notin> row_id ` set rs \<Longrightarrow> filter (\<lambda>r. row_id r \<noteq> i) rs = rs"
  by (induction rs) auto

lemma delete_where_id_absent:
  "i \<notin> row_id ` set (reservas db) \<Longrightarrow> delete_where_id i db = db"
  by (simp add: delete_where_id_def filter_other_id)

lemma map_update_absent:
  "i \<notin> row_id ` set rs \<Longrightarrow>
   map (\<lambda>r. if row_id r = i then r\<lparr>row_data := d\<rparr> else r) rs = rs"
  by (induction rs) auto

lemma update_where_id_absent:
  "i \<notin> row_id ` set (reservas db) \<Longrightarrow> update_where_id i d db = db"
  by (simp add: update_where_id_def map_update_absent)

lemma length_filter_distinct:
  "distinct (map row_id rs) \<Longrightarrow> i \<in> row_id ` set rs \<Longrightarrow>
   Suc (length (filter (\<lambda>r. row_id r \<noteq> i) rs)) = length rs"
  by (induction rs) (auto simp: filter_other_id)

text \<open>Every statement keeps the identifiers generated and distinct.\<close>

lemma primary_key_insert: "primary_key db \<Longrightarrow> primary_key (insert_into d db)"
  by (auto simp: primary_key_def insert_into_def list_all_iff less_Suc_eq)

lemma primary_key_delete: "primary_key db \<Longrightarrow> primary_key (delete_where_id i db)"
  by (auto simp: primary_key_def delete_where_id_def list_all_iff distinct_map_filter)

lemma map_row_id_update:
  "map row_id (map (\<lambda>r. if row_id r = i then r\<lparr>row_data := d\<rparr> else r) rs) = map row_id rs"
  by (induction rs) auto

lemma primary_key_update: "primary_key db \<Longrightarrow> primary_key (update_where_id i d db)"
  by (auto simp: primary_key_def update_where_id_def list_all_iff map_row_id_update
      simp del: map_map)

lemma primary_key_tabla_ejemplo: "primary_key tabla_ejemplo"
  by (simp add: primary_key_def tabla_ejemplo_def)

text \<open>
  Claim C8: for every identifier, the delete operation removes exactly one row and
  responds with a success confirmation when a row with that identifier exists, and
  responds with a not-found status and changes no rows when no row with that identifier
  exists. (The table's identifiers are distinct; the storage does not fail.)
\<close>

theorem delete_eliminar_reserva_correct:
  assumes "primary_key db"
  shows "(i \<in> row_id ` set (reservas db) \<longrightarrow>
            delete_eliminar_reserva False i db
              = (\<lparr>status = 200, json = Mensaje Reserva_eliminada_con_exito\<rparr>,
                 db\<lparr>reservas := filter (\<lambda>r. row_id r \<noteq> i) (reservas db)\<rparr>)
            \<and> Suc (length (filter (\<lambda>r. row_id r \<noteq> i) (reservas db))) = length (reservas db)
            \<and> i \<notin> row_id ` set (reservas (snd (delete_eliminar_reserva False i db))))
       \<and> (i \<notin> row_id ` set (reservas db) \<longrightarrow>
            delete_eliminar_reserva False i db
              = (\<lparr>status = 404, json = Mensaje Reserva_no_encontrada\<rparr>, db))"
proof (intro conjI impI)
  assume i: "i \<in> row_id ` set (reservas db)"
  then have pos: "0 < affectedRows i db"
    using affectedRows_0_iff [of i db] by simp
  then show r: "delete_eliminar_reserva False i db
          = (\<lparr>status = 200, json = Mensaje Reserva_eliminada_con_exito\<rparr>,
             db\<lparr>reservas := filter (\<lambda>r. row_id r \<noteq> i) (reservas db)\<rparr>)"
    by (simp add: delete_eliminar_reserva_def delete_where_id_def)
  show "Suc (length (filter (\<lambda>r. row_id r \<noteq> i) (reservas db))) = length (reservas db)"
    using assms i by (simp add: length_filter_distinct primary_key_def)
  show "i \<notin> row_id ` set (reservas (snd (delete_eliminar_reserva False i db)))"
    by (auto simp: r)
next
  assume i: "i \<notin> row_id ` set (reservas db)"
  then have "affectedRows i db = 0"
    by (simp add: affectedRows_0_iff)
  then show "delete_eliminar_reserva False i db
               = (\<lparr>status = 404, json = Mensaje Reserva_no_encontrada\<rparr>, db)"
    using i by (simp add: delete_eliminar_reserva_def delete_where_id_absent)
qed

theorem delete_eliminar_reserva_witness:
  "primary_key tabla_ejemplo
   \<and> delete_eliminar_reserva False 1 tabla_ejemplo
       = (\<lparr>status = 200, json = Mensaje Reserva_eliminada_con_exito\<rparr>,
          \<lparr>reservas = [\<lparr>row_id = 2, row_data = ejemplo\<lparr>nombres := Some ''Luis''\<rparr>\<rparr>],
           auto_increment = 3\<rparr>)
   \<and> delete_eliminar_reserva False 7 tabla_ejemplo
       = (\<lparr>status = 404, json = Mensaje Reserva_no_encontrada\<rparr>, tabla_ejemplo)"
proof -
  have pk: "primary_key tabla_ejemplo"
    by (rule primary_key_tabla_ejemplo)
  have ids: "row_id ` set (reservas tabla_ejemplo) = {1, 2}"
    by (auto simp: tabla_ejemplo_def)
  have one: "delete_eliminar_reserva False 1 tabla_ejemplo
        = (\<lparr>status = 200, json = Mensaje Reserva_eliminada_con_exito\<rparr>,
           tabla_ejemplo\<lparr>reservas := filter (\<lambda>r. row_id r \<noteq> 1) (reservas tabla_ejemplo)\<rparr>)"
    using delete_eliminar_reserva_correct [OF pk, of 1] by (simp add: ids)
  have seven: "delete_eliminar_reserva False 7 tabla_ejemplo
        = (\<lparr>status = 404, json = Mensaje Reserva_no_encontrada\<rparr>, tabla_ejemplo)"
    using delete_eliminar_reserva_correct [OF pk, of 7] by (simp add: ids)
  show ?thesis
    unfolding one seven using pk by (simp add: tabla_ejemplo_def)
qed

text \<open>
  Claim C3: for every identifier and every payload of ten fields, the update operation
  replaces all ten fields of the rows with that identifier by the payload exactly as
  received, with no validation and no sanitization; when zero rows are affected it
  responds with a not-found status, and when at least one row is affected it responds
  with a success confirmation. (The storage does not fail.)
\<close>

theorem put_actualizar_reserva_correct:
  "(affectedRows i db = 0 \<longrightarrow>
      put_actualizar_reserva False i b db
        = (\<lparr>status = 404, json = Mensaje Reserva_no_encontrada\<rparr>, db))
   \<and> (0 < affectedRows i db \<longrightarrow>
        put_actualizar_reserva False i b db
          = (\<lparr>status = 200, json = Mensaje Reserva_actualizada_con_exito\<rparr>,
             db\<lparr>reservas :=
                  map (\<lambda>r. if row_id r = i then \<lparr>row_id = i, row_data = b\<rparr> else r)
                    (reservas db)\<rparr>))"
proof (intro conjI impI)
  assume z: "affectedRows i db = 0"
  then have "i \<notin> row_id ` set (reservas db)"
    by (simp add: affectedRows_0_iff)
  then show "put_actualizar_reserva False i b db
               = (\<lparr>status = 404, json = Mensaje Reserva_no_encontrada\<rparr>, db)"
    using z by (simp add: put_actualizar_reserva_def update_where_id_absent)
next
  assume pos: "0 < affectedRows i db"
  have "(\<lambda>r. if row_id r = i then r\<lparr>row_data := b\<rparr> else r)
      = (\<lambda>r. if row_id r = i then \<lparr>row_id = i, row_data = b\<rparr> else r)"
    by (rule ext) auto
  then show "put_actualizar_reserva False i b db
          = (\<lparr>status = 200, json = Mensaje Reserva_actualizada_con_exito\<rparr>,
             db\<lparr>reservas :=
                  map (\<lambda>r. if row_id r = i then \<lparr>row_id = i, row_data = b\<rparr> else r)
                    (reservas db)\<rparr>)"
    using pos by (simp add: put_actualizar_reserva_def update_where_id_def)
qed

theorem put_actualizar_reserva_witness:
  "affectedRows 9 tabla_ejemplo = 0
   \<and> put_actualizar_reserva False 9 sin_validar tabla_ejemplo
       = (\<lparr>status = 404, json = Mensaje Reserva_no_encontrada\<rparr>, tabla_ejemplo)
   \<and> 0 < affectedRows 2 tabla_ejemplo
   \<and> put_actualizar_reserva False 2 sin_validar tabla_ejemplo
       = (\<lparr>status = 200, json = Mensaje Reserva_actualizada_con_exito\<rparr>,
          \<lparr>reservas = [\<lparr>row_id = 1, row_data = ejemplo\<rparr>, \<lparr>row_id = 2, row_data = sin_validar\<rparr>],
           auto_increment = 3\<rparr>)"
proof -
  have z: "affectedRows 9 tabla_ejemplo = 0" and pos: "0 < affectedRows 2 tabla_ejemplo"
    by (simp_all add: affectedRows_def tabla_ejemplo_def)
  from put_actualizar_reserva_correct [of 9 tabla_ejemplo sin_validar] z
  have nine: "put_actualizar_reserva False 9 sin_validar tabla_ejemplo
       = (\<lparr>status = 404, json = Mensaje Reserva_no_encontrada\<rparr>, tabla_ejemplo)"
    by simp
  from put_actualizar_reserva_correct [of 2 tabla_ejemplo sin_validar] pos
  have two: "put_actualizar_reserva False 2 sin_validar tabla_ejemplo
       = (\<lparr>status = 200, json = Mensaje Reserva_actualizada_con_exito\<rparr>,
          tabla_ejemplo\<lparr>reservas :=
             map (\<lambda>r. if row_id r = 2 then \<lparr>row_id = 2, row_data = sin_validar\<rparr> else r)
               (reservas tabla_ejemplo)\<rparr>)"
    by simp
  show ?thesis
    unfolding two nine using z pos by (simp add: tabla_ejemplo_def)
qed

section \<open>Properties of the validation chains\<close>

lemma run_length_escape:
  "run_chain isEmail (f, [Trim, IsLength mn mx, Escape, WithMessage m]) (b, es)
     = (set_field f (Some (escape (trim (toString (get_field f b))))) b,
        es @ failure f m (isLength mn mx (trim (toString (get_field f b)))))"
  by (simp add: run_chain_def failure_def)

lemma run_escape_length:
  "run_chain isEmail (f, [Trim, Escape, IsLength mn mx, WithMessage m]) (b, es)
     = (set_field f (Some (escape (trim (toString (get_field f b))))) b,
        es @ failure f m (isLength mn mx (escape (trim (toString (get_field f b))))))"
  by (simp add: run_chain_def failure_def)

lemma run_email:
  "run_chain isEmail (f, [Trim, IsEmail, WithMessage m]) (b, es)
     = (set_field f (Some (trim (toString (get_field f b)))) b,
        es @ failure f m (isEmail (trim (toString (get_field f b)))))"
  by (simp add: run_chain_def failure_def)

lemma run_telefono:
  "run_chain isEmail (f, [Trim, IsNumeric, IsLength mn mx, WithMessage m]) (b, es)
     = (set_field f (Some (trim (toString (get_field f b)))) b,
        es @ failure f Invalid_value (isNumeric (trim (toString (get_field f b))))
           @ failure f m (isLength mn mx (trim (toString (get_field f b)))))"
  by (simp add: run_chain_def failure_def)

lemma run_trim_isIn:
  "run_chain isEmail (f, [Trim, IsIn vs, WithMessage m]) (b, es)
     = (set_field f (Some (trim (toString (get_field f b)))) b,
        es @ failure f m (isIn vs (trim (toString (get_field f b)))))"
  by (simp add: run_chain_def failure_def)

lemma run_trim_escape_isIn:
  "run_chain isEmail (f, [Trim, Escape, IsIn vs, WithMessage m]) (b, es)
     = (set_field f (Some (escape (trim (toString (get_field f b))))) b,
        es @ failure f m (isIn vs (escape (trim (toString (get_field f b))))))"
  by (simp add: run_chain_def failure_def)

lemma run_isNumeric:
  "run_chain isEmail (f, [IsNumeric, WithMessage m]) (b, es)
     = (b, es @ failure f m (isNumeric (toString (get_field f b))))"
  by (simp add: run_chain_def failure_def)

lemma run_isIn:
  "run_chain isEmail (f, [IsIn vs, WithMessage m]) (b, es)
     = (b, es @ failure f m (isIn vs (toString (get_field f b))))"
  by (simp add: run_chain_def failure_def)

lemma run_isBoolean:
  "run_chain isEmail (f, [IsBoolean, WithMessage m]) (b, es)
     = (b, es @ failure f m (isBoolean (toString (get_field f b))))"
  by (simp add: run_chain_def failure_def)

lemma run_optional_escape:
  "run_chain isEmail (f, [Trim, Optional, Escape]) (b, es)
     = (set_field f (map_option (\<lambda>s. escape (trim s)) (get_field f b)) b, es)"
  by (cases f; cases "get_field f b") (simp_all add: run_chain_def toString_def)

lemma run_escape_optional:
  "run_chain isEmail (f, [Trim, Escape, Optional]) (b, es)
     = (set_field f (map_option (\<lambda>s. escape (trim s)) (get_field f b)) b, es)"
  by (cases f; cases "get_field f b") (simp_all add: run_chain_def toString_def)

lemmas run_chain_simps = run_length_escape run_escape_length run_email run_telefono
  run_trim_isIn run_trim_escape_isIn run_isNumeric run_isIn run_isBoolean
  run_optional_escape run_escape_optional

text \<open>The body and the errors after the chains of \<^verbatim>\<open>server.js\<close>.\<close>

lemma validationResult_validators:
  "validationResult isEmail validators p =
     (\<lparr>apellidos = Some (escape (trim (toString (apellidos p)))),
       nombres = Some (escape (trim (toString (nombres p)))),
       email = Some (trim (toString (email p))),
       telefono = Some (trim (toString (telefono p))),
       tipo_evento = Some (escape (trim (toString (tipo_evento p)))),
       plan_evento = Some (trim (toString (plan_evento p))),
       cantidad_anticipo = cantidad_anticipo p,
       servicio_adicional = map_option (\<lambda>s. escape (trim s)) (servicio_adicional p),
       horas_renta = horas_renta p,
       compromiso_pago = compromiso_pago p\<rparr>,
      failure Apellidos Los_apellidos_deben_tener_entre_2_y_27_caracteres
          (isLength 2 27 (trim (toString (apellidos p))))
      @ failure Nombres El_nombre_debe_tener_entre_2_y_20_caracteres
          (isLength 2 20 (trim (toString (nombres p))))
      @ failure Email Ingresa_un_email_valido (isEmail (trim (toString (email p))))
      @ failure Telefono Invalid_value (isNumeric (trim (toString (telefono p))))
      @ failure Telefono Numero_de_telefono_debe_ser_de_10_digitos
          (isLength 10 10 (trim (toString (telefono p))))
      @ failure Tipo_evento Tipo_de_evento_debe_ser_valido
          (isLength 3 10 (trim (toString (tipo_evento p))))
      @ failure Plan_evento Plan_de_evento_no_valido
          (isIn [''Clasico'', ''Premium'', ''Golden''] (trim (toString (plan_evento p))))
      @ failure Cantidad_anticipo Cantidad_de_anticipo_debe_ser_un_numero
          (isNumeric (toString (cantidad_anticipo p)))
      @ failure Horas_renta Horas_de_renta_no_validas
          (isIn [''3'', ''4'', ''5'', ''6'', ''7''] (toString (horas_renta p)))
      @ failure Compromiso_pago Compromiso_de_pago_debe_ser_verdadero_o_falso
          (isBoolean (toString (compromiso_pago p))))"
  by (simp add: validationResult_def validators_def run_chain_simps)

text \<open>The same for \<^verbatim>\<open>unnamed/part_000\<close>.\<close>

lemma validationResult_validators_part_000:
  "validationResult isEmail validators_part_000 p =
     (\<lparr>apellidos = Some (escape (trim (toString (apellidos p)))),
       nombres = Some (escape (trim (toString (nombres p)))),
       email = Some (trim (toString (email p))),
       telefono = Some (trim (toString (telefono p))),
       tipo_evento = Some (escape (trim (toString (tipo_evento p)))),
       plan_evento = Some (escape (trim (toString (plan_evento p)))),
       cantidad_anticipo = cantidad_anticipo p,
       servicio_adicional = map_option (\<lambda>s. escape (trim s)) (servicio_adicional p),
       horas_renta = horas_renta p,
       compromiso_pago = compromiso_pago p\<rparr>,
      failure Apellidos Los_apellidos_deben_tener_al_menos_2_caracteres
          (isLength 2 27 (escape (trim (toString (apellidos p)))))
      @ failure Nombres El_nombre_debe_tener_al_menos_2_caracteres
          (isLength 2 20 (escape (trim (toString (nombres p)))))
      @ failure Email Ingresa_un_email_valido (isEmail (trim (toString (email p))))
      @ failure Telefono Invalid_value (isNumeric (trim (toString (telefono p))))
      @ failure Telefono Numero_de_telefono_debe_ser_de_10_digitos
          (isLength 10 10 (trim (toString (telefono p))))
      @ failure Tipo_evento Tipo_de_evento_debe_ser_valido
          (isLength 3 10 (escape (trim (toString (tipo_evento p)))))
      @ failure Plan_evento Plan_de_evento_no_valido
          (isIn [''Clasico'', ''Premium'', ''Golden''] (escape (trim (toString (plan_evento p)))))
      @ failure Cantidad_anticipo Cantidad_de_anticipo_debe_ser_un_numero
          (isNumeric (toString (cantidad_anticipo p)))
      @ failure Horas_renta Horas_de_renta_no_validas
          (isIn [''3'', ''4'', ''5'', ''6'', ''7''] (toString (horas_renta p)))
      @ failure Compromiso_pago Compromiso_de_pago_debe_ser_verdadero_o_falso
          (isBoolean (toString (compromiso_pago p))))"
  by (simp add: validationResult_def validators_part_000_def run_chain_simps)

lemma failure_Nil: "failure f m ok = [] \<longleftrightarrow> ok"
  by (simp add: failure_def)

lemma errors_validators:
  "snd (validationResult isEmail validators p) = [] \<longleftrightarrow> passes isEmail p"
  by (simp add: validationResult_validators failure_Nil passes_def)

lemma errors_validators_part_000:
  "snd (validationResult isEmail validators_part_000 p) = [] \<longleftrightarrow> passes_part_000 isEmail p"
  by (simp add: validationResult_validators_part_000 failure_Nil passes_part_000_def)

section \<open>Properties of the create operation\<close>

lemma rejected:
  "\<not> passes isEmail p \<Longrightarrow>
   post_guardar_reserva isEmail err p db
     = (\<lparr>status = 400, json = Errors (snd (validationResult isEmail validators p))\<rparr>, db)"
  using errors_validators [of isEmail p]
  by (simp add: post_guardar_reserva_def guardar_reserva_def case_prod_beta)

lemma rejected_part_000:
  "\<not> passes_part_000 isEmail p \<Longrightarrow>
   post_guardar_reserva_part_000 isEmail err p db
     = (\<lparr>status = 400,
         json = Errors (snd (validationResult isEmail validators_part_000 p))\<rparr>, db)"
  using errors_validators_part_000 [of isEmail p]
  by (simp add: post_guardar_reserva_part_000_def guardar_reserva_def case_prod_beta)

lemma or_empty_map_option:
  "or_empty (map_option f v) = (case v of None \<Rightarrow> [] | Some s \<Rightarrow> f s)"
  by (cases v) (simp_all add: or_empty_def)

lemma accepted:
  "passes isEmail p \<Longrightarrow>
   post_guardar_reserva isEmail False p db
     = (\<lparr>status = 200, json = Mensaje Reserva_guardada_con_exito\<rparr>,
        db\<lparr>reservas := reservas db @
             [\<lparr>row_id = auto_increment db,
               row_data =
                 \<lparr>apellidos = Some (sanitizeInput (escape (trim (toString (apellidos p))))),
                  nombres = Some (sanitizeInput (escape (trim (toString (nombres p))))),
                  email = Some (trim (toString (email p))),
                  telefono = Some (trim (toString (telefono p))),
                  tipo_evento = Some (sanitizeInput (escape (trim (toString (tipo_evento p))))),
                  plan_evento = Some (trim (toString (plan_evento p))),
                  cantidad_anticipo = cantidad_anticipo p,
                  servicio_adicional =
                    Some (sanitizeInput
                      (case servicio_adicional p of None \<Rightarrow> [] | Some s \<Rightarrow> escape (trim s))),
                  horas_renta = horas_renta p,
                  compromiso_pago = compromiso_pago p\<rparr>\<rparr>],
           auto_increment := Suc (auto_increment db)\<rparr>)"
  using errors_validators [of isEmail p]
  by (simp add: post_guardar_reserva_def guardar_reserva_def validationResult_validators
      insert_into_def toString_def or_empty_map_option split: prod.splits)

lemma escape_char_amp: "escape_char c \<noteq> [c] \<Longrightarrow> CHR ''&'' \<in> set (escape_char c)"
  by (simp add: escape_char_def split: if_splits)

lemma escape_Cons: "escape (c # s) = escape_char c @ escape s"
  by (simp add: escape_def)

lemma escape_no_amp: "CHR ''&'' \<notin> set (escape s) \<Longrightarrow> escape s = s"
proof (induction s)
  case Nil
  then show ?case by (simp add: escape_def)
next
  case (Cons c s)
  from Cons.prems have a: "CHR ''&'' \<notin> set (escape_char c)"
    and b: "CHR ''&'' \<notin> set (escape s)"
    by (simp_all add: escape_Cons)
  from a have "escape_char c = [c]"
    using escape_char_amp by blast
  then show ?case
    by (simp add: escape_Cons Cons.IH [OF b])
qed

lemma plan_evento_escape:
  "isIn [''Clasico'', ''Premium'', ''Golden''] (escape s) \<Longrightarrow> escape s = s"
  by (rule escape_no_amp) (auto simp: isIn_def)

lemma accepted_part_000:
  assumes "passes_part_000 isEmail p"
  shows "post_guardar_reserva_part_000 isEmail False p db
     = (\<lparr>status = 200, json = Mensaje Reserva_guardada_con_exito\<rparr>,
        db\<lparr>reservas := reservas db @
             [\<lparr>row_id = auto_increment db,
               row_data =
                 \<lparr>apellidos = Some (sanitizeInput_part_000 (escape (trim (toString (apellidos p))))),
                  nombres = Some (sanitizeInput_part_000 (escape (trim (toString (nombres p))))),
                  email = Some (trim (toString (email p))),
                  telefono = Some (trim (toString (telefono p))),
                  tipo_evento =
                    Some (sanitizeInput_part_000 (escape (trim (toString (tipo_evento p))))),
                  plan_evento = Some (trim (toString (plan_evento p))),
                  cantidad_anticipo = cantidad_anticipo p,
                  servicio_adicional =
                    Some (sanitizeInput_part_000
                      (case servicio_adicional p of None \<Rightarrow> [] | Some s \<Rightarrow> escape (trim s))),
                  horas_renta = horas_renta p,
                  compromiso_pago = compromiso_pago p\<rparr>\<rparr>],
           auto_increment := Suc (auto_increment db)\<rparr>)"
proof -
  from assms have "isIn [''Clasico'', ''Premium'', ''Golden'']
      (escape (trim (toString (plan_evento p))))"
    by (simp add: passes_part_000_def)
  then have plan: "escape (trim (toString (plan_evento p))) = trim (toString (plan_evento p))"
    by (rule plan_evento_escape)
  show ?thesis
    using errors_validators_part_000 [of isEmail p] assms plan
    by (simp add: post_guardar_reserva_part_000_def guardar_reserva_def
        validationResult_validators_part_000 insert_into_def or_empty_map_option
        split: prod.splits) (simp add: toString_def)
qed


text \<open>
  Claim C1, as it stands: every create payload that violates a field rule of the data
  model is answered with status 400 and inserts nothing. A body whose \<open>apellidos\<close> is
  28 characters long, 23 of them trailing spaces, violates the length rule, and both
  variants accept it: the chains trim the value before they measure it.
\<close>

theorem padded_apellidos_accepted:
  "\<not> field_rules (\<lambda>s. s = ''ana@example.com'')
        (ejemplo\<lparr>apellidos := Some (''Perez'' @ replicate 23 (CHR '' ''))\<rparr>)
   \<and> post_guardar_reserva (\<lambda>s. s = ''ana@example.com'') False
        (ejemplo\<lparr>apellidos := Some (''Perez'' @ replicate 23 (CHR '' ''))\<rparr>) tabla_vacia
      = (\<lparr>status = 200, json = Mensaje Reserva_guardada_con_exito\<rparr>,
         \<lparr>reservas =
            [\<lparr>row_id = 1,
              row_data = ejemplo\<lparr>apellidos := Some ''Perez'', servicio_adicional := Some []\<rparr>\<rparr>],
          auto_increment = 2\<rparr>)
   \<and> post_guardar_reserva_part_000 (\<lambda>s. s = ''ana@example.com'') False
        (ejemplo\<lparr>apellidos := Some (''Perez'' @ replicate 23 (CHR '' ''))\<rparr>) tabla_vacia
      = (\<lparr>status = 200, json = Mensaje Reserva_guardada_con_exito\<rparr>,
         \<lparr>reservas =
            [\<lparr>row_id = 1,
              row_data = ejemplo\<lparr>apellidos := Some ''Perez'', servicio_adicional := Some []\<rparr>\<rparr>],
          auto_increment = 2\<rparr>)"
  by code_simp

text \<open>
  The telephone check is \<^verbatim>\<open>isNumeric\<close> and a length of 10, and \<^verbatim>\<open>isNumeric\<close> admits a
  sign and a decimal point: a telephone that is not ten digits is accepted too, against
  the chain's own message.
\<close>

lemma signed_telefono_accepted:
  "status (fst (post_guardar_reserva (\<lambda>s. s = ''ana@example.com'') False
      (ejemplo\<lparr>telefono := Some ''+123456789''\<rparr>) tabla_vacia)) = 200
   \<and> status (fst (post_guardar_reserva_part_000 (\<lambda>s. s = ''ana@example.com'') False
      (ejemplo\<lparr>telefono := Some ''12345.6789''\<rparr>) tabla_vacia)) = 200"
  by code_simp

text \<open>
  Claim C1, amended: for every create payload in which a field, read as the chains read
  it (absent as the empty string, trimmed where the chain trims, in the second variant
  escaped where the chain escapes before the check), fails its rule, the create
  operation responds with status 400 carrying the non-empty array of error descriptors
  and performs no insert: the table is unchanged, whether or not the storage would fail.
\<close>

theorem guardar_reserva_rejects:
  "(\<not> passes isEmail p \<longrightarrow>
      snd (validationResult isEmail validators p) \<noteq> []
      \<and> post_guardar_reserva isEmail err p db
          = (\<lparr>status = 400, json = Errors (snd (validationResult isEmail validators p))\<rparr>, db))
   \<and> (\<not> passes_part_000 isEmail p \<longrightarrow>
        snd (validationResult isEmail validators_part_000 p) \<noteq> []
        \<and> post_guardar_reserva_part_000 isEmail err p db
            = (\<lparr>status = 400,
                json = Errors (snd (validationResult isEmail validators_part_000 p))\<rparr>, db))"
  by (simp add: rejected rejected_part_000 errors_validators errors_validators_part_000)

theorem guardar_reserva_rejects_witness:
  "\<not> passes (\<lambda>s. s = ''ana@example.com'')
        (ejemplo\<lparr>telefono := Some ''12345'', horas_renta := Some ''8''\<rparr>)
   \<and> post_guardar_reserva (\<lambda>s. s = ''ana@example.com'') False
        (ejemplo\<lparr>telefono := Some ''12345'', horas_renta := Some ''8''\<rparr>) tabla_ejemplo
      = (\<lparr>status = 400,
          json = Errors [\<lparr>param = Telefono, msg = Numero_de_telefono_debe_ser_de_10_digitos\<rparr>,
                         \<lparr>param = Horas_renta, msg = Horas_de_renta_no_validas\<rparr>]\<rparr>,
         tabla_ejemplo)
   \<and> \<not> passes_part_000 (\<lambda>s. s = ''ana@example.com'')
        (ejemplo\<lparr>telefono := Some ''12345'', horas_renta := Some ''8''\<rparr>)
   \<and> post_guardar_reserva_part_000 (\<lambda>s. s = ''ana@example.com'') False
        (ejemplo\<lparr>telefono := Some ''12345'', horas_renta := Some ''8''\<rparr>) tabla_ejemplo
      = (\<lparr>status = 400,
          json = Errors [\<lparr>param = Telefono, msg = Numero_de_telefono_debe_ser_de_10_digitos\<rparr>,
                         \<lparr>param = Horas_renta, msg = Horas_de_renta_no_validas\<rparr>]\<rparr>,
         tabla_ejemplo)"
proof -
  let ?e = "\<lambda>s. s = ''ana@example.com''"
  let ?p = "ejemplo\<lparr>telefono := Some ''12345'', horas_renta := Some ''8''\<rparr>"
  have n: "\<not> passes ?e ?p" and n': "\<not> passes_part_000 ?e ?p"
    by code_simp+
  have e: "snd (validationResult ?e validators ?p)
      = [\<lparr>param = Telefono, msg = Numero_de_telefono_debe_ser_de_10_digitos\<rparr>,
         \<lparr>param = Horas_renta, msg = Horas_de_renta_no_validas\<rparr>]"
    and e': "snd (validationResult ?e validators_part_000 ?p)
      = [\<lparr>param = Telefono, msg = Numero_de_telefono_debe_ser_de_10_digitos\<rparr>,
         \<lparr>param = Horas_renta, msg = Horas_de_renta_no_validas\<rparr>]"
    by code_simp+
  from guardar_reserva_rejects [of ?e ?p False tabla_ejemplo] n n' e e'
  show ?thesis by simp
qed

text \<open>
  Claim C2, as it stands: for every payload satisfying all field rules, the row
  inserted holds the sanitized versions of the submitted free-text values. A body with
  \<open>apellidos\<close> \<^verbatim>\<open><b>Ana</b>\<close> and \<open>nombres\<close> \<^verbatim>\<open> Ana \<close> (a space on each side) satisfies
  the rules and is accepted, and neither value is stored as its sanitized version: the
  chains have trimmed and escaped the body before \<^verbatim>\<open>sanitizeInput\<close> reads it, so the tags
  reach the sanitizer as text.
\<close>

theorem stored_is_not_sanitized_submitted:
  "field_rules (\<lambda>s. s = ''ana@example.com'')
      (ejemplo\<lparr>apellidos := Some ''<b>Ana</b>'', nombres := Some '' Ana ''\<rparr>)
   \<and> sanitizeInput ''<b>Ana</b>'' = ''Ana''
   \<and> sanitizeInput '' Ana '' = '' Ana ''
   \<and> post_guardar_reserva (\<lambda>s. s = ''ana@example.com'') False
        (ejemplo\<lparr>apellidos := Some ''<b>Ana</b>'', nombres := Some '' Ana ''\<rparr>) tabla_vacia
      = (\<lparr>status = 200, json = Mensaje Reserva_guardada_con_exito\<rparr>,
         \<lparr>reservas =
            [\<lparr>row_id = 1,
              row_data = ejemplo\<lparr>apellidos := Some ''bAna/b'', nombres := Some ''Ana'',
                                servicio_adicional := Some []\<rparr>\<rparr>],
          auto_increment = 2\<rparr>)
   \<and> sanitizeInput_part_000 ''<b>Ana</b>'' = ''Ana''
   \<and> sanitizeInput_part_000 '' Ana '' = '' Ana ''
   \<and> post_guardar_reserva_part_000 (\<lambda>s. s = ''ana@example.com'') False
        (ejemplo\<lparr>apellidos := Some ''<b>Ana</b>'', nombres := Some '' Ana ''\<rparr>) tabla_vacia
      = (\<lparr>status = 200, json = Mensaje Reserva_guardada_con_exito\<rparr>,
         \<lparr>reservas =
            [\<lparr>row_id = 1,
              row_data = ejemplo\<lparr>apellidos := Some ''&lt;b&gt;Ana&lt;/b&gt;'',
                                nombres := Some ''Ana'', servicio_adicional := Some []\<rparr>\<rparr>],
          auto_increment = 2\<rparr>)"
  by code_simp

text \<open>
  Claim C2, amended: for every create payload that passes the checks of the chains,
  when the storage does not fail, the create operation inserts exactly one row and
  responds with the success confirmation. In that row \<open>apellidos\<close>, \<open>nombres\<close>,
  \<open>tipo_evento\<close> and \<open>servicio_adicional\<close> are the sanitized versions of the trimmed
  and escaped submitted values (of the empty string for an absent
  \<open>servicio_adicional\<close>); \<open>email\<close>, \<open>telefono\<close> and \<open>plan_evento\<close> are the trimmed
  submitted values; \<open>cantidad_anticipo\<close>, \<open>horas_renta\<close> and \<open>compromiso_pago\<close> are the
  submitted values.
\<close>

theorem guardar_reserva_inserts:
  "(passes isEmail p \<longrightarrow>
      post_guardar_reserva isEmail False p db
        = (\<lparr>status = 200, json = Mensaje Reserva_guardada_con_exito\<rparr>,
           db\<lparr>reservas := reservas db @
                [\<lparr>row_id = auto_increment db,
                  row_data =
                    \<lparr>apellidos = Some (sanitizeInput (escape (trim (toString (apellidos p))))),
                     nombres = Some (sanitizeInput (escape (trim (toString (nombres p))))),
                     email = Some (trim (toString (email p))),
                     telefono = Some (trim (toString (telefono p))),
                     tipo_evento = Some (sanitizeInput (escape (trim (toString (tipo_evento p))))),
                     plan_evento = Some (trim (toString (plan_evento p))),
                     cantidad_anticipo = cantidad_anticipo p,
                     servicio_adicional =
                       Some (sanitizeInput
                         (case servicio_adicional p of None \<Rightarrow> [] | Some s \<Rightarrow> escape (trim s))),
                     horas_renta = horas_renta p,
                     compromiso_pago = compromiso_pago p\<rparr>\<rparr>],
              auto_increment := Suc (auto_increment db)\<rparr>))
   \<and> (passes_part_000 isEmail p \<longrightarrow>
        post_guardar_reserva_part_000 isEmail False p db
          = (\<lparr>status = 200, json = Mensaje Reserva_guardada_con_exito\<rparr>,
             db\<lparr>reservas := reservas db @
                  [\<lparr>row_id = auto_increment db,
                    row_data =
                      \<lparr>apellidos =
                         Some (sanitizeInput_part_000 (escape (trim (toString (apellidos p))))),
                       nombres =
                         Some (sanitizeInput_part_000 (escape (trim (toString (nombres p))))),
                       email = Some (trim (toString (email p))),
                       telefono = Some (trim (toString (telefono p))),
                       tipo_evento =
                         Some (sanitizeInput_part_000 (escape (trim (toString (tipo_evento p))))),
                       plan_evento = Some (trim (toString (plan_evento p))),
                       cantidad_anticipo = cantidad_anticipo p,
                       servicio_adicional =
                         Some (sanitizeInput_part_000
                           (case servicio_adicional p of None \<Rightarrow> [] | Some s \<Rightarrow> escape (trim s))),
                       horas_renta = horas_renta p,
                       compromiso_pago = compromiso_pago p\<rparr>\<rparr>],
                auto_increment := Suc (auto_increment db)\<rparr>))"
  using accepted [of isEmail p db] accepted_part_000 [of isEmail p db] by blast

theorem guardar_reserva_inserts_witness:
  "passes (\<lambda>s. s = ''ana@example.com'')
      (ejemplo\<lparr>nombres := Some '' Ana Sofia'', email := Some ''ana@example.com '',
               servicio_adicional := Some '' <i>Flores</i> ''\<rparr>)
   \<and> post_guardar_reserva (\<lambda>s. s = ''ana@example.com'') False
        (ejemplo\<lparr>nombres := Some '' Ana Sofia'', email := Some ''ana@example.com '',
                 servicio_adicional := Some '' <i>Flores</i> ''\<rparr>) tabla_ejemplo
      = (\<lparr>status = 200, json = Mensaje Reserva_guardada_con_exito\<rparr>,
         \<lparr>reservas = reservas tabla_ejemplo @
            [\<lparr>row_id = 3,
              row_data = ejemplo\<lparr>nombres := Some ''Ana Sofia'',
                                servicio_adicional := Some ''iFlores/i''\<rparr>\<rparr>],
          auto_increment = 4\<rparr>)
   \<and> passes_part_000 (\<lambda>s. s = ''ana@example.com'')
      (ejemplo\<lparr>nombres := Some '' Ana Sofia'', email := Some ''ana@example.com '',
               servicio_adicional := Some '' <i>Flores</i> ''\<rparr>)
   \<and> post_guardar_reserva_part_000 (\<lambda>s. s = ''ana@example.com'') False
        (ejemplo\<lparr>nombres := Some '' Ana Sofia'', email := Some ''ana@example.com '',
                 servicio_adicional := Some '' <i>Flores</i> ''\<rparr>) tabla_ejemplo
      = (\<lparr>status = 200, json = Mensaje Reserva_guardada_con_exito\<rparr>,
         \<lparr>reservas = reservas tabla_ejemplo @
            [\<lparr>row_id = 3,
              row_data = ejemplo\<lparr>nombres := Some ''Ana Sofia'',
                                servicio_adicional := Some ''&lt;i&gt;Flores&lt;/i&gt;''\<rparr>\<rparr>],
          auto_increment = 4\<rparr>)"
proof -
  let ?e = "\<lambda>s. s = ''ana@example.com''"
  let ?p = "ejemplo\<lparr>nombres := Some '' Ana Sofia'', email := Some ''ana@example.com '',
                    servicio_adicional := Some '' <i>Flores</i> ''\<rparr>"
  have h: "passes ?e ?p" and h': "passes_part_000 ?e ?p"
    by code_simp+
  from guardar_reserva_inserts [of ?e ?p tabla_ejemplo] h h'
  have r: "post_guardar_reserva ?e False ?p tabla_ejemplo
        = (\<lparr>status = 200, json = Mensaje Reserva_guardada_con_exito\<rparr>,
           tabla_ejemplo\<lparr>reservas := reservas tabla_ejemplo @
                [\<lparr>row_id = auto_increment tabla_ejemplo,
                  row_data =
                    \<lparr>apellidos = Some (sanitizeInput (escape (trim (toString (apellidos ?p))))),
                     nombres = Some (sanitizeInput (escape (trim (toString (nombres ?p))))),
                     email = Some (trim (toString (email ?p))),
                     telefono = Some (trim (toString (telefono ?p))),
                     tipo_evento = Some (sanitizeInput (escape (trim (toString (tipo_evento ?p))))),
                     plan_evento = Some (trim (toString (plan_evento ?p))),
                     cantidad_anticipo = cantidad_anticipo ?p,
                     servicio_adicional =
                       Some (sanitizeInput
                         (case servicio_adicional ?p of None \<Rightarrow> [] | Some s \<Rightarrow> escape (trim s))),
                     horas_renta = horas_renta ?p,
                     compromiso_pago = compromiso_pago ?p\<rparr>\<rparr>],
              auto_increment := Suc (auto_increment tabla_ejemplo)\<rparr>)"
    and r': "post_guardar_reserva_part_000 ?e False ?p tabla_ejemplo
        = (\<lparr>status = 200, json = Mensaje Reserva_guardada_con_exito\<rparr>,
           tabla_ejemplo\<lparr>reservas := reservas tabla_ejemplo @
                [\<lparr>row_id = auto_increment tabla_ejemplo,
                  row_data =
                    \<lparr>apellidos =
                       Some (sanitizeInput_part_000 (escape (trim (toString (apellidos ?p))))),
                     nombres =
                       Some (sanitizeInput_part_000 (escape (trim (toString (nombres ?p))))),
                     email = Some (trim (toString (email ?p))),
                     telefono = Some (trim (toString (telefono ?p))),
                     tipo_evento =
                       Some (sanitizeInput_part_000 (escape (trim (toString (tipo_evento ?p))))),
                     plan_evento = Some (trim (toString (plan_evento ?p))),
                     cantidad_anticipo = cantidad_anticipo ?p,
                     servicio_adicional =
                       Some (sanitizeInput_part_000
                         (case servicio_adicional ?p of None \<Rightarrow> [] | Some s \<Rightarrow> escape (trim s))),
                     horas_renta = horas_renta ?p,
                     compromiso_pago = compromiso_pago ?p\<rparr>\<rparr>],
              auto_increment := Suc (auto_increment tabla_ejemplo)\<rparr>)"
    by blast+
  show ?thesis
    unfolding r r' by code_simp
qed


text \<open>
  Claim C10, as it stands: for every create payload satisfying all field rules in which
  \<open>servicio_adicional\<close> is absent, the create operation inserts the row with the
  sanitization of the empty string there. A body without \<open>servicio_adicional\<close> whose
  \<open>nombres\<close> is one letter between two spaces and whose \<open>tipo_evento\<close> is
  \<^verbatim>\<open>Boda & Co\<close> satisfies the rules of the data model, and neither variant inserts a
  row: the first measures \<open>nombres\<close> trimmed, the second also measures \<open>tipo_evento\<close>
  escaped.
\<close>

theorem rules_satisfied_nothing_inserted:
  "field_rules (\<lambda>s. s = ''ana@example.com'')
      (ejemplo\<lparr>nombres := Some '' A '', tipo_evento := Some ''Boda & Co''\<rparr>)
   \<and> servicio_adicional (ejemplo\<lparr>nombres := Some '' A '', tipo_evento := Some ''Boda & Co''\<rparr>)
       = None
   \<and> post_guardar_reserva (\<lambda>s. s = ''ana@example.com'') False
        (ejemplo\<lparr>nombres := Some '' A '', tipo_evento := Some ''Boda & Co''\<rparr>) tabla_vacia
      = (\<lparr>status = 400,
          json = Errors [\<lparr>param = Nombres,
                           msg = El_nombre_debe_tener_entre_2_y_20_caracteres\<rparr>]\<rparr>,
         tabla_vacia)
   \<and> post_guardar_reserva_part_000 (\<lambda>s. s = ''ana@example.com'') False
        (ejemplo\<lparr>nombres := Some '' A '', tipo_evento := Some ''Boda & Co''\<rparr>) tabla_vacia
      = (\<lparr>status = 400,
          json = Errors [\<lparr>param = Nombres,
                           msg = El_nombre_debe_tener_al_menos_2_caracteres\<rparr>,
                         \<lparr>param = Tipo_evento, msg = Tipo_de_evento_debe_ser_valido\<rparr>]\<rparr>,
         tabla_vacia)"
  by code_simp

text \<open>
  Claim C10, amended: for every create payload that passes the checks of the chains and
  whose optional \<open>servicio_adicional\<close> is absent or the empty string, when the storage
  does not fail, the row inserted has \<open>servicio_adicional\<close> equal to the sanitization
  of the empty string, which is the empty string; and whatever an accepted payload
  holds there, the column gets a defined string.
\<close>

theorem servicio_adicional_defined:
  "(passes isEmail p \<longrightarrow>
      length (reservas (snd (post_guardar_reserva isEmail False p db)))
        = Suc (length (reservas db))
      \<and> servicio_adicional (row_data (last (reservas (snd (post_guardar_reserva isEmail False p db)))))
          \<noteq> None
      \<and> (servicio_adicional p = None \<or> servicio_adicional p = Some [] \<longrightarrow>
           servicio_adicional
             (row_data (last (reservas (snd (post_guardar_reserva isEmail False p db)))))
             = Some (sanitizeInput [])))
   \<and> (passes_part_000 isEmail p \<longrightarrow>
        length (reservas (snd (post_guardar_reserva_part_000 isEmail False p db)))
          = Suc (length (reservas db))
        \<and> servicio_adicional
            (row_data (last (reservas (snd (post_guardar_reserva_part_000 isEmail False p db)))))
            \<noteq> None
        \<and> (servicio_adicional p = None \<or> servicio_adicional p = Some [] \<longrightarrow>
             servicio_adicional
               (row_data (last (reservas (snd (post_guardar_reserva_part_000 isEmail False p db)))))
               = Some (sanitizeInput_part_000 [])))
   \<and> sanitizeInput [] = [] \<and> sanitizeInput_part_000 [] = []"
proof -
  have t: "trim [] = []" and e: "escape [] = []"
    by (simp_all add: trim_def escape_def)
  show ?thesis
    by (auto simp: accepted accepted_part_000 t e sanitizeInput_Nil sanitizeInput_part_000_Nil)
qed

theorem servicio_adicional_defined_witness:
  "passes (\<lambda>s. s = ''ana@example.com'') ejemplo
   \<and> servicio_adicional ejemplo = None
   \<and> reservas (snd (post_guardar_reserva (\<lambda>s. s = ''ana@example.com'') False ejemplo tabla_vacia))
       = [\<lparr>row_id = 1, row_data = ejemplo\<lparr>servicio_adicional := Some []\<rparr>\<rparr>]
   \<and> passes_part_000 (\<lambda>s. s = ''ana@example.com'') (ejemplo\<lparr>servicio_adicional := Some []\<rparr>)
   \<and> reservas (snd (post_guardar_reserva_part_000 (\<lambda>s. s = ''ana@example.com'') False
         (ejemplo\<lparr>servicio_adicional := Some []\<rparr>) tabla_vacia))
       = [\<lparr>row_id = 1, row_data = ejemplo\<lparr>servicio_adicional := Some []\<rparr>\<rparr>]"
  using servicio_adicional_defined [of "\<lambda>s. s = ''ana@example.com''" ejemplo tabla_vacia]
    servicio_adicional_defined [of "\<lambda>s. s = ''ana@example.com''"
      "ejemplo\<lparr>servicio_adicional := Some []\<rparr>" tabla_vacia]
  by code_simp

text \<open>
  Claim C9: the create operations of the two variants are not equivalent. The body
  whose \<open>tipo_evento\<close> is \<^verbatim>\<open>Boda & Co\<close>, 9 characters and 13 once escaped, is accepted by
  \<^verbatim>\<open>server.js\<close>, which measures the value before it escapes it, and rejected by the
  other variant, which escapes first.
\<close>

theorem variants_differ:
  assumes "isEmail ''ana@example.com''"
  shows "post_guardar_reserva isEmail False (ejemplo\<lparr>tipo_evento := Some ''Boda & Co''\<rparr>) db
      = (\<lparr>status = 200, json = Mensaje Reserva_guardada_con_exito\<rparr>,
         insert_into (ejemplo\<lparr>tipo_evento := Some ''Boda  Co'', servicio_adicional := Some []\<rparr>) db)
    \<and> post_guardar_reserva_part_000 isEmail False (ejemplo\<lparr>tipo_evento := Some ''Boda & Co''\<rparr>) db
      = (\<lparr>status = 400,
          json = Errors [\<lparr>param = Tipo_evento, msg = Tipo_de_evento_debe_ser_valido\<rparr>]\<rparr>, db)
    \<and> isLength 3 10 (trim ''Boda & Co'')
    \<and> \<not> isLength 3 10 (escape (trim ''Boda & Co''))"
proof -
  let ?p = "ejemplo\<lparr>tipo_evento := Some ''Boda & Co''\<rparr>"
  have mail: "trim ''ana@example.com'' = ''ana@example.com''"
    by code_simp
  have rest: "passes (\<lambda>_. True) ?p"
    by code_simp
  have ok: "passes isEmail ?p"
    using rest assms by (simp add: passes_def ejemplo_def toString_def mail)
  have row: "\<lparr>apellidos = Some (sanitizeInput (escape (trim (toString (apellidos ?p))))),
      nombres = Some (sanitizeInput (escape (trim (toString (nombres ?p))))),
      email = Some (trim (toString (email ?p))),
      telefono = Some (trim (toString (telefono ?p))),
      tipo_evento = Some (sanitizeInput (escape (trim (toString (tipo_evento ?p))))),
      plan_evento = Some (trim (toString (plan_evento ?p))),
      cantidad_anticipo = cantidad_anticipo ?p,
      servicio_adicional =
        Some (sanitizeInput (case servicio_adicional ?p of None \<Rightarrow> [] | Some s \<Rightarrow> escape (trim s))),
      horas_renta = horas_renta ?p,
      compromiso_pago = compromiso_pago ?p\<rparr>
    = ejemplo\<lparr>tipo_evento := Some ''Boda  Co'', servicio_adicional := Some []\<rparr>"
    by code_simp
  have a: "post_guardar_reserva isEmail False ?p db
      = (\<lparr>status = 200, json = Mensaje Reserva_guardada_con_exito\<rparr>,
         insert_into (ejemplo\<lparr>tipo_evento := Some ''Boda  Co'', servicio_adicional := Some []\<rparr>) db)"
    unfolding accepted [OF ok] row by (simp add: insert_into_def)
  have len: "isLength 3 10 (trim ''Boda & Co'')" "\<not> isLength 3 10 (escape (trim ''Boda & Co''))"
    by code_simp+
  have bad: "\<not> passes_part_000 isEmail ?p"
    using len by (simp add: passes_part_000_def ejemplo_def toString_def)
  have others: "snd (validationResult (\<lambda>_. True) validators_part_000 ?p)
      = [\<lparr>param = Tipo_evento, msg = Tipo_de_evento_debe_ser_valido\<rparr>]"
    by code_simp
  have "snd (validationResult isEmail validators_part_000 ?p)
      = snd (validationResult (\<lambda>_. True) validators_part_000 ?p)"
    using assms by (simp add: validationResult_validators_part_000 ejemplo_def toString_def mail)
  then have b: "post_guardar_reserva_part_000 isEmail False ?p db
      = (\<lparr>status = 400,
          json = Errors [\<lparr>param = Tipo_evento, msg = Tipo_de_evento_debe_ser_valido\<rparr>]\<rparr>, db)"
    by (simp add: rejected_part_000 [OF bad] others)
  from a b len show ?thesis by simp
qed

theorem variants_differ_witness:
  "post_guardar_reserva (\<lambda>s. s = ''ana@example.com'') False
      (ejemplo\<lparr>tipo_evento := Some ''Boda & Co''\<rparr>) tabla_vacia
      = (\<lparr>status = 200, json = Mensaje Reserva_guardada_con_exito\<rparr>,
         \<lparr>reservas =
            [\<lparr>row_id = 1,
              row_data = ejemplo\<lparr>tipo_evento := Some ''Boda  Co'',
                                servicio_adicional := Some []\<rparr>\<rparr>],
          auto_increment = 2\<rparr>)
   \<and> post_guardar_reserva_part_000 (\<lambda>s. s = ''ana@example.com'') False
      (ejemplo\<lparr>tipo_evento := Some ''Boda & Co''\<rparr>) tabla_vacia
      = (\<lparr>status = 400,
          json = Errors [\<lparr>param = Tipo_evento, msg = Tipo_de_evento_debe_ser_valido\<rparr>]\<rparr>,
         tabla_vacia)"
  using variants_differ [of "\<lambda>s. s = ''ana@example.com''" tabla_vacia]
  by (simp add: insert_into_def tabla_vacia_def)

section \<open>Properties of the rate limiter\<close>

lemma rateLimit_other:
  "key \<noteq> k \<Longrightarrow> snd (rateLimit opts now key st) k = st k"
  by (simp add: rateLimit_def increment_def Let_def split: option.splits prod.splits)

lemma rateLimit_live:
  "st k = Some (r, h) \<Longrightarrow> now < r \<Longrightarrow>
   rateLimit opts now k st = (nth_reply opts (Suc h), st(k \<mapsto> (r, Suc h)))"
  by (simp add: rateLimit_def increment_def totalHits_def nth_reply_def)

lemma rateLimit_fresh:
  "\<not> live now k st \<Longrightarrow> 0 < windowMs opts \<Longrightarrow>
   rateLimit opts now k st = (nth_reply opts 1, st(k \<mapsto> (now + windowMs opts, 1)))"
  by (auto simp: rateLimit_def increment_def totalHits_def nth_reply_def live_def
      split: option.splits)

lemma serve_window:
  "st k = Some (r, h) \<Longrightarrow>
   list_all (\<lambda>x. snd x = k \<longrightarrow> fst x < r) reqs \<Longrightarrow>
   replies_to k (serve opts reqs st)
     = map (\<lambda>j. nth_reply opts (h + Suc j)) [0..<length (filter (\<lambda>x. snd x = k) reqs)]"
proof (induction reqs arbitrary: st h)
  case Nil
  then show ?case by (simp add: replies_to_def)
next
  case (Cons x reqs)
  obtain now key where x: "x = (now, key)" by (cases x)
  from Cons.prems(2) have rest: "list_all (\<lambda>x. snd x = k \<longrightarrow> fst x < r) reqs"
    by simp
  show ?case
  proof (cases "key = k")
    case True
    with Cons.prems x have now: "now < r" by simp
    let ?st = "st(k \<mapsto> (r, Suc h))"
    have step: "rateLimit opts now k st = (nth_reply opts (Suc h), ?st)"
      by (rule rateLimit_live [of st k r h now, OF Cons.prems(1) now])
    have IH: "replies_to k (serve opts reqs ?st)
        = map (\<lambda>j. nth_reply opts (Suc h + Suc j)) [0..<length (filter (\<lambda>x. snd x = k) reqs)]"
      by (rule Cons.IH [of ?st "Suc h", OF _ rest]) simp
    have "replies_to k (serve opts (x # reqs) st)
        = nth_reply opts (Suc h) # replies_to k (serve opts reqs ?st)"
      using True x step by (simp add: replies_to_def)
    also have "\<dots> = map (\<lambda>j. nth_reply opts (h + Suc j))
                       [0..<Suc (length (filter (\<lambda>x. snd x = k) reqs))]"
      unfolding IH upt_conv_Cons [OF zero_less_Suc] map_Suc_upt [symmetric]
      by (simp add: comp_def)
    finally show ?thesis using True x by simp
  next
    case False
    let ?st = "snd (rateLimit opts now key st)"
    have st': "?st k = Some (r, h)"
      using Cons.prems(1) False by (simp add: rateLimit_other)
    have "replies_to k (serve opts (x # reqs) st) = replies_to k (serve opts reqs ?st)"
      using False x by (simp add: replies_to_def case_prod_beta)
    then show ?thesis
      using Cons.IH [of ?st h, OF st' rest] False x by simp
  qed
qed

text \<open>
  Claim C6: for every client, within one window of 2 minutes the limiter admits the
  125th request of that client and answers the 126th with the rejection message and
  status 429; after the window has ended the client's counter is zero again, and its
  next request is admitted and opens a new window. The requests of other clients,
  whenever they arrive, change nothing of this.
\<close>

theorem limiter_window:
  "(\<not> live now k st
      \<and> list_all (\<lambda>x. snd x = k \<longrightarrow> fst x < now + windowMs limiter) reqs \<longrightarrow>
      replies_to k (serve limiter ((now, k) # reqs) st)
        = map (\<lambda>n. if n < 125 then Next else Send 429 (message limiter))
            [0..<Suc (length (filter (\<lambda>x. snd x = k) reqs))])
   \<and> (st k = Some (resetTime, hits) \<and> resetTime \<le> t \<longrightarrow>
        totalHits t k st = 0
        \<and> rateLimit limiter t k st = (Next, st(k \<mapsto> (t + 120000, 1))))"
proof (intro conjI impI)
  assume a: "\<not> live now k st
      \<and> list_all (\<lambda>x. snd x = k \<longrightarrow> fst x < now + windowMs limiter) reqs"
  let ?st = "st(k \<mapsto> (now + windowMs limiter, 1))"
  have first: "rateLimit limiter now k st = (Next, ?st)"
    using a by (simp add: rateLimit_fresh nth_reply_def limiter_def)
  have w: "replies_to k (serve limiter reqs ?st)
      = map (\<lambda>j. nth_reply limiter (1 + Suc j)) [0..<length (filter (\<lambda>x. snd x = k) reqs)]"
    by (rule serve_window [of ?st k "now + windowMs limiter" 1]) (use a in simp_all)
  have n: "\<And>j. nth_reply limiter (1 + Suc j)
      = (if Suc j < 125 then Next else Send 429 (message limiter))"
    by (auto simp: nth_reply_def limiter_def)
  have "replies_to k (serve limiter ((now, k) # reqs) st)
      = Next # replies_to k (serve limiter reqs ?st)"
    using first by (simp add: replies_to_def)
  also have "\<dots> = map (\<lambda>n. if n < 125 then Next else Send 429 (message limiter))
            [0..<Suc (length (filter (\<lambda>x. snd x = k) reqs))]"
    unfolding w n upt_conv_Cons [OF zero_less_Suc] map_Suc_upt [symmetric]
    by (simp add: comp_def)
  finally show "replies_to k (serve limiter ((now, k) # reqs) st)
        = map (\<lambda>n. if n < 125 then Next else Send 429 (message limiter))
            [0..<Suc (length (filter (\<lambda>x. snd x = k) reqs))]" .
next
  assume b: "st k = Some (resetTime, hits) \<and> resetTime \<le> t"
  then show "totalHits t k st = 0"
    by (simp add: totalHits_def)
  from b have "\<not> live t k st"
    by (simp add: live_def)
  then show "rateLimit limiter t k st = (Next, st(k \<mapsto> (t + 120000, 1)))"
    by (simp add: rateLimit_fresh nth_reply_def limiter_def)
qed


theorem limiter_window_witness:
  "\<not> live 0 ''10.0.0.1'' Map.empty
   \<and> list_all (\<lambda>x. snd x = ''10.0.0.1'' \<longrightarrow> fst x < 0 + windowMs limiter) rafaga
   \<and> length (filter (\<lambda>x. snd x = ''10.0.0.1'') rafaga) = 125
   \<and> replies_to ''10.0.0.1'' (serve limiter ((0, ''10.0.0.1'') # rafaga) Map.empty) ! 124 = Next
   \<and> replies_to ''10.0.0.1'' (serve limiter ((0, ''10.0.0.1'') # rafaga) Map.empty) ! 125
       = Send 429 (CHR 0xA1 # ''Ja! No puedes tirar mi server.'')
   \<and> totalHits 120000 ''10.0.0.1'' (Map.empty(''10.0.0.1'' \<mapsto> (120000, 126))) = 0
   \<and> rateLimit limiter 120000 ''10.0.0.1'' (Map.empty(''10.0.0.1'' \<mapsto> (120000, 126)))
       = (Next, Map.empty(''10.0.0.1'' \<mapsto> (240000, 1)))"
proof -
  have f: "\<not> live 0 ''10.0.0.1'' Map.empty"
    by (simp add: live_def)
  have i: "list_all (\<lambda>x. snd x = ''10.0.0.1'' \<longrightarrow> fst x < 0 + windowMs limiter) rafaga"
    by (simp add: rafaga_def list_all_iff limiter_def)
  have n: "length (filter (\<lambda>x. snd x = ''10.0.0.1'') rafaga) = 125"
    by (simp add: rafaga_def)
  have m: "message limiter = CHR 0xA1 # ''Ja! No puedes tirar mi server.''"
    by (simp add: limiter_def)
  from limiter_window [of 0 "''10.0.0.1''" Map.empty rafaga] f i
  have r: "replies_to ''10.0.0.1'' (serve limiter ((0, ''10.0.0.1'') # rafaga) Map.empty)
      = map (\<lambda>n. if n < 125 then Next else Send 429 (message limiter)) [0..<126]"
    by (simp add: n del: upt_Suc)
  from limiter_window [where st = "Map.empty(''10.0.0.1'' \<mapsto> (120000, 126))"
      and k = "''10.0.0.1''" and resetTime = 120000 and hits = 126 and t = 120000]
  have e: "totalHits 120000 ''10.0.0.1'' (Map.empty(''10.0.0.1'' \<mapsto> (120000, 126))) = 0
      \<and> rateLimit limiter 120000 ''10.0.0.1'' (Map.empty(''10.0.0.1'' \<mapsto> (120000, 126)))
       = (Next, Map.empty(''10.0.0.1'' \<mapsto> (240000, 1)))"
    by simp
  have nn: "map (\<lambda>n. if n < 125 then Next else Send 429 (message limiter)) [0..<126] ! 124 = Next
    \<and> map (\<lambda>n. if n < 125 then Next else Send 429 (message limiter)) [0..<126] ! 125
       = Send 429 (message limiter)"
    by (simp add: nth_map_upt del: upt_Suc)
  show ?thesis
    unfolding r using f i n e nn by (simp add: m del: upt_Suc)
qed

end
